theory Spec2Isabelle
  imports Complex_Main
begin

section \<open>Python values\<close>

text \<open>
  The three components of CIVIC-OS take plain Python data: \<^verbatim>\<open>Dict[str, Any]\<close> bundles whose
  values are \<^verbatim>\<open>None\<close>, booleans, integers, floats, strings, lists and nested mappings.
  A mapping is an association list read by its first match for a key.  A Python \<^verbatim>\<open>float\<close>
  is idealised as a real number: the properties below are about which branch the code
  takes, never about rounding, so NaN, the infinities and rounding are outside the model.
  A character of a \<^verbatim>\<open>str\<close> is a code point below 256.
\<close>

datatype pyval =
    PNone
  | PBool bool
  | PInt int
  | PFloat real
  | PStr string
  | PList "pyval list"
  | PDict "(string \<times> pyval) list"

type_synonym pydict = "(string \<times> pyval) list"

text \<open>Every exception the modelled code can raise on such data.\<close>

datatype error = AttributeError | JSONDecodeError

text \<open>\<^verbatim>\<open>bool(x)\<close>, the truth value that \<^verbatim>\<open>or\<close>, \<^verbatim>\<open>not\<close> and \<^verbatim>\<open>if\<close> use.\<close>

fun truthy :: "pyval \<Rightarrow> bool" where
  "truthy PNone = False"
| "truthy (PBool b) = b"
| "truthy (PInt n) = (n \<noteq> 0)"
| "truthy (PFloat r) = (r \<noteq> 0)"
| "truthy (PStr s) = (s \<noteq> [])"
| "truthy (PList xs) = (xs \<noteq> [])"
| "truthy (PDict kvs) = (kvs \<noteq> [])"

text \<open>\<^verbatim>\<open>a or b\<close>: the first operand when it is truthy, the second otherwise.\<close>

definition py_or :: "pyval \<Rightarrow> pyval \<Rightarrow> pyval" where
  "py_or a b = (if truthy a then a else b)"

text \<open>\<^verbatim>\<open>d.get(k)\<close> on a mapping: \<^verbatim>\<open>None\<close> for an absent key.\<close>

definition dget :: "pydict \<Rightarrow> string \<Rightarrow> pyval" where
  "dget d k = (case map_of d k of None \<Rightarrow> PNone | Some v \<Rightarrow> v)"

text \<open>\<^verbatim>\<open>d[k] = v\<close> and \<^verbatim>\<open>{**d, **e}\<close>: a present key keeps its place, a new one goes last.\<close>

fun dict_set :: "pydict \<Rightarrow> string \<Rightarrow> pyval \<Rightarrow> pydict" where
  "dict_set [] k v = [(k, v)]"
| "dict_set ((k', v') # d) k v = (if k' = k then (k, v) # d else (k', v') # dict_set d k v)"

definition dict_merge :: "pydict \<Rightarrow> pydict \<Rightarrow> pydict" where
  "dict_merge d e = fold (\<lambda>(k, v) acc. dict_set acc k v) e d"

text \<open>\<^verbatim>\<open>str.isspace\<close> on one character and \<^verbatim>\<open>str.strip()\<close>.\<close>

definition py_isspace :: "char \<Rightarrow> bool" where
  "py_isspace c = (of_char c \<in> {9, 10, 11, 12, 13, 28, 29, 30, 31, 32, 133, 160 :: nat})"

definition strip :: "string \<Rightarrow> string" where
  "strip s = rev (dropWhile py_isspace (rev (dropWhile py_isspace s)))"

section \<open>Audit gate (audit\_gate.py)\<close>

subsection \<open>Helpers\<close>

definition is_nonempty_str :: "pyval \<Rightarrow> bool" where
  "is_nonempty_str x = (case x of PStr s \<Rightarrow> strip s \<noteq> [] | _ \<Rightarrow> False)"

definition is_dict :: "pyval \<Rightarrow> bool" where
  "is_dict x = (case x of PDict _ \<Rightarrow> True | _ \<Rightarrow> False)"

definition as_list :: "pyval \<Rightarrow> pyval list" where
  "as_list x = (case x of PNone \<Rightarrow> [] | PList xs \<Rightarrow> xs | _ \<Rightarrow> [x])"

text \<open>The test of \<^verbatim>\<open>_has_any_textual_evidence\<close> on one item of Facts or Sources.\<close>

definition textual :: "pyval \<Rightarrow> bool" where
  "textual f = (is_nonempty_str f \<or> is_dict f)"

definition has_any_textual_evidence :: "pydict \<Rightarrow> bool" where
  "has_any_textual_evidence es =
     (let facts = as_list (py_or (dget es ''Facts'') (dget es ''facts'')) in
      if length (filter textual facts) > 0 then True
      else
        let sources = as_list (py_or (dget es ''Sources'') (dget es ''sources'')) in
        if length (filter textual sources) > 0 then True else False)"

text \<open>
  One branch chain of \<^verbatim>\<open>_count_missing_required\<close>: \<^verbatim>\<open>None\<close>, a string that strips to
  nothing, an empty list, an empty mapping.
\<close>

fun is_missing :: "pyval \<Rightarrow> bool" where
  "is_missing PNone = True"
| "is_missing (PStr s) = (strip s = [])"
| "is_missing (PList xs) = (xs = [])"
| "is_missing (PDict d) = (d = [])"
| "is_missing _ = False"

definition count_missing_required :: "(string \<times> pyval) list \<Rightarrow> string list" where
  "count_missing_required required = map fst (filter (\<lambda>(name, val). is_missing val) required)"

subsection \<open>Data models\<close>

text \<open>
  The notes are English sentences and the fixes Thai ones; each literal of the source is
  one constructor here, named by the gate and the check that emits it, so that equality of
  constructors is exact string match on the (pairwise different) literals.  The one note
  built at run time, \<^verbatim>\<open>f"Missing required fields: {', '.join(missing)}"\<close>, carries its list.
\<close>

datatype note_msg =
    Note_missing "string list"
  | Note_truth_evidence | Note_truth_narrative | Note_truth_testability
  | Note_logic_options | Note_logic_linear
  | Note_risk_stages | Note_risk_instrumentation
  | Note_bias_confirmation
  | Note_clarity_summary | Note_clarity_checklist

datatype fix_msg =
    Fix_truth_missing | Fix_truth_evidence | Fix_truth_narrative | Fix_truth_testability
  | Fix_logic_missing | Fix_logic_options | Fix_logic_linear
  | Fix_risk_missing | Fix_risk_stages | Fix_risk_instrumentation
  | Fix_bias_missing | Fix_bias_confirmation
  | Fix_clarity_missing | Fix_clarity_summary | Fix_clarity_checklist

text \<open>\<^verbatim>\<open>_summary\<close>: the PASS sentence, or the FAIL sentence with the failed gates' names.\<close>

datatype summary = Summary_pass | Summary_fail "string list"

text \<open>Fields \<^verbatim>\<open>notes\<close> and \<^verbatim>\<open>fixes\<close> of GateResult are \<open>gr_notes\<close> and \<open>gr_fixes\<close> here.\<close>

record gate_result =
  gate :: string
  verdict :: string
  gr_notes :: "note_msg list"
  gr_fixes :: "fix_msg list"
  score :: real

record audit_report =
  codex_id :: string
  timestamp_utc :: string
  overall_verdict :: string
  gate_results :: "gate_result list"
  summary :: summary
  minimum_fixes :: "fix_msg list"
  metadata :: pydict

definition score_from :: "nat \<Rightarrow> real \<Rightarrow> real" where
  "score_from missing penalties =
     (let score = 1 - min 1 (real missing * (18 / 100) + penalties) in max 0 score)"

text \<open>
  \<^verbatim>\<open>x = artifacts.get(code) or {}\<close>, then \<^verbatim>\<open>x.get(...)\<close>: a body that is a mapping, or
  falsy, is read as a mapping; on any other body the first \<^verbatim>\<open>.get\<close> raises AttributeError.
\<close>

definition doc :: "pydict \<Rightarrow> string \<Rightarrow> error + pydict" where
  "doc artifacts code =
     (case py_or (dget artifacts code) (PDict []) of
        PDict d \<Rightarrow> Inr d
      | _ \<Rightarrow> Inl AttributeError)"

subsection \<open>Gate 1: Truth\<close>

text \<open>
  The \<^verbatim>\<open>required\<close> list of each gate is a definition of its own; the gate's body follows the
  source line by line.  A field that the source wraps in \<^verbatim>\<open>_as_list\<close> enters the list as a
  list.  (\<^verbatim>\<open>unknowns\<close> and \<^verbatim>\<open>data_risks\<close> are read by the source and never used.)
\<close>

text \<open>
  The test \<^verbatim>\<open>ds.get("Option A") or ds.get("OptionA") or ds.get("options")\<close>, which the Truth
  and the Bias gate share.
\<close>

definition ds_has_options :: "pydict \<Rightarrow> bool" where
  "ds_has_options ds =
     truthy (py_or (py_or (dget ds ''Option A'') (dget ds ''OptionA'')) (dget ds ''options''))"

definition truth_facts :: "pydict \<Rightarrow> pyval list" where
  "truth_facts es = as_list (py_or (dget es ''Facts'') (dget es ''facts''))"

definition truth_required :: "pydict \<Rightarrow> pydict \<Rightarrow> (string \<times> pyval) list" where
  "truth_required es fpf =
     (let facts = truth_facts es;
          assumptions = as_list (py_or (dget es ''Assumptions'') (dget es ''assumptions''));
          falsifiers = as_list (py_or (dget fpf ''Falsifiers'') (dget fpf ''falsifiers''))
      in [(''ES.Facts'', PList facts),
          (''ES.Assumptions'', PList assumptions),
          (''FPF.Falsifiers'', PList falsifiers)])"

definition truth_gate_body :: "pydict \<Rightarrow> pydict \<Rightarrow> pydict \<Rightarrow> gate_result" where
  "truth_gate_body es fpf ds =
     (let facts = truth_facts es;
          falsifiers = as_list (py_or (dget fpf ''Falsifiers'') (dget fpf ''falsifiers''));
          minimal_tests = as_list (py_or (py_or (dget fpf ''Minimal tests'') (dget fpf ''MinimalTests''))
                                         (dget fpf ''minimal_tests''));
          missing = count_missing_required (truth_required es fpf);
          c1 = (missing \<noteq> []);
          c2 = (\<not> has_any_textual_evidence es);
          c3 = (ds_has_options ds \<and> length facts = 0);
          c4 = (falsifiers \<noteq> [] \<and> length minimal_tests = 0)
      in \<lparr> gate = ''Truth Gate'',
           verdict = (if length missing = 0 \<and> has_any_textual_evidence es then ''PASS'' else ''FAIL''),
           gr_notes = (if c1 then [Note_missing missing] else [])
                    @ (if c2 then [Note_truth_evidence] else [])
                    @ (if c3 then [Note_truth_narrative] else [])
                    @ (if c4 then [Note_truth_testability] else []),
           gr_fixes = (if c1 then [Fix_truth_missing] else [])
                    @ (if c2 then [Fix_truth_evidence] else [])
                    @ (if c3 then [Fix_truth_narrative] else [])
                    @ (if c4 then [Fix_truth_testability] else []),
           score = score_from (length missing)
                     (if \<not> has_any_textual_evidence es then 2 / 10 else 0) \<rparr>)"

text \<open>
  \<^verbatim>\<open>_truth_gate\<close> reads ES, FPF and DS on every path, so it raises exactly when one of
  the three bodies is neither a mapping nor falsy.
\<close>

definition truth_gate :: "pydict \<Rightarrow> error + gate_result" where
  "truth_gate artifacts =
     (case doc artifacts ''ES'' of Inl e \<Rightarrow> Inl e | Inr es \<Rightarrow>
       (case doc artifacts ''FPF'' of Inl e \<Rightarrow> Inl e | Inr fpf \<Rightarrow>
         (case doc artifacts ''DS'' of Inl e \<Rightarrow> Inl e | Inr ds \<Rightarrow>
            Inr (truth_gate_body es fpf ds))))"

subsection \<open>Gate 2: Logic\<close>

definition logic_required :: "pydict \<Rightarrow> pydict \<Rightarrow> (string \<times> pyval) list" where
  "logic_required wm fpf =
     (let causal = py_or (py_or (dget wm ''Causal structure'') (dget wm ''causal_structure''))
                         (dget wm ''CausalStructure'');
          levers = as_list (py_or (dget fpf ''Levers'') (dget fpf ''levers''));
          variables = as_list (py_or (dget fpf ''Variables'') (dget fpf ''variables''))
      in [(''WM.Causal structure'', causal),
          (''FPF.Variables'', PList variables),
          (''FPF.Levers'', PList levers)])"

definition options_count :: "pydict \<Rightarrow> nat" where
  "options_count ds =
     (let optA = py_or (dget ds ''Option A'') (dget ds ''OptionA'');
          optB = py_or (dget ds ''Option B'') (dget ds ''OptionB'');
          optC = py_or (dget ds ''Option C'') (dget ds ''OptionC'');
          options_list = dget ds ''options'';
          n = (if truthy optA then 1 else 0) + (if truthy optB then 1 else 0)
              + (if truthy optC then 1 else 0)
      in case options_list of PList xs \<Rightarrow> max n (length xs) | _ \<Rightarrow> n)"

definition logic_gate_body :: "pydict \<Rightarrow> pydict \<Rightarrow> pydict \<Rightarrow> gate_result" where
  "logic_gate_body wm ds fpf =
     (let loops = as_list (py_or (dget wm ''Loops'') (dget wm ''loops''));
          delays = as_list (py_or (dget wm ''Delays'') (dget wm ''delays''));
          bottlenecks = as_list (py_or (dget wm ''Bottlenecks'') (dget wm ''bottlenecks''));
          missing = count_missing_required (logic_required wm fpf);
          c1 = (missing \<noteq> []);
          c2 = (options_count ds < 2);
          c3 = (length loops = 0 \<and> length delays = 0 \<and> length bottlenecks = 0)
      in \<lparr> gate = ''Logic Gate'',
           verdict = (if length missing = 0 \<and> options_count ds \<ge> 2 then ''PASS'' else ''FAIL''),
           gr_notes = (if c1 then [Note_missing missing] else [])
                    @ (if c2 then [Note_logic_options] else [])
                    @ (if c3 then [Note_logic_linear] else []),
           gr_fixes = (if c1 then [Fix_logic_missing] else [])
                    @ (if c2 then [Fix_logic_options] else [])
                    @ (if c3 then [Fix_logic_linear] else []),
           score = score_from (length missing) (if options_count ds < 2 then 15 / 100 else 0) \<rparr>)"

definition logic_gate :: "pydict \<Rightarrow> error + gate_result" where
  "logic_gate artifacts =
     (case doc artifacts ''WM'' of Inl e \<Rightarrow> Inl e | Inr wm \<Rightarrow>
       (case doc artifacts ''DS'' of Inl e \<Rightarrow> Inl e | Inr ds \<Rightarrow>
         (case doc artifacts ''FPF'' of Inl e \<Rightarrow> Inl e | Inr fpf \<Rightarrow>
            Inr (logic_gate_body wm ds fpf))))"

subsection \<open>Gate 3: Risk\<close>

definition risk_required :: "pydict \<Rightarrow> pydict \<Rightarrow> (string \<times> pyval) list" where
  "risk_required ds ap =
     (let downside = py_or (py_or (dget ds ''Global downside bound'') (dget ds ''GlobalDownsideBound''))
                           (dget ds ''DownsideBound'');
          rollback = py_or (py_or (py_or (dget ds ''Rollback plan'') (dget ds ''Rollback''))
                                  (dget ap ''Rollback'')) (dget ap ''rollback'');
          kill_switch = py_or (py_or (py_or (dget ds ''Kill-switch'') (dget ds ''KillSwitch''))
                                     (dget ap ''Kill-switch'')) (dget ap ''KillSwitch'')
      in [(''DS.Global downside bound'', downside),
          (''AP.Rollback'', rollback),
          (''AP.Kill-switch'', kill_switch)])"

definition risk_stages :: "pydict \<Rightarrow> pyval list" where
  "risk_stages ap =
     as_list (py_or (py_or (py_or (dget ap ''Stages'') (dget ap ''stages'')) (dget ap ''Steps''))
                    (dget ap ''steps''))"

definition risk_gate_body :: "pydict \<Rightarrow> pydict \<Rightarrow> gate_result" where
  "risk_gate_body ds ap =
     (let stages = risk_stages ap;
          thresholds = py_or (py_or (py_or (dget ap ''Thresholds'') (dget ap ''thresholds''))
                                    (dget ap ''Metrics & thresholds'')) (dget ap ''metrics_thresholds'');
          instrumentation = py_or (dget ap ''Instrumentation'') (dget ap ''instrumentation'');
          missing = count_missing_required (risk_required ds ap);
          c1 = (missing \<noteq> []);
          c2 = (length stages = 0);
          c3 = (\<not> truthy thresholds \<or> \<not> truthy instrumentation)
      in \<lparr> gate = ''Risk Gate'',
           verdict = (if length missing = 0 \<and> length stages > 0 then ''PASS'' else ''FAIL''),
           gr_notes = (if c1 then [Note_missing missing] else [])
                    @ (if c2 then [Note_risk_stages] else [])
                    @ (if c3 then [Note_risk_instrumentation] else []),
           gr_fixes = (if c1 then [Fix_risk_missing] else [])
                    @ (if c2 then [Fix_risk_stages] else [])
                    @ (if c3 then [Fix_risk_instrumentation] else []),
           score = score_from (length missing) (if length stages = 0 then 15 / 100 else 0) \<rparr>)"

definition risk_gate :: "pydict \<Rightarrow> error + gate_result" where
  "risk_gate artifacts =
     (case doc artifacts ''DS'' of Inl e \<Rightarrow> Inl e | Inr ds \<Rightarrow>
       (case doc artifacts ''AP'' of Inl e \<Rightarrow> Inl e | Inr ap \<Rightarrow>
          Inr (risk_gate_body ds ap)))"

subsection \<open>Gate 4: Bias\<close>

definition bias_required :: "pydict \<Rightarrow> (string \<times> pyval) list" where
  "bias_required sm =
     (let actors = as_list (py_or (py_or (dget sm ''Actors & incentives'') (dget sm ''Actors''))
                                  (dget sm ''actors''));
          incentives = as_list (py_or (dget sm ''Incentives'') (dget sm ''incentives''));
          corruption = as_list (py_or (dget sm ''Corruption surfaces'') (dget sm ''corruption_surfaces''));
          hidden_costs = as_list (py_or (dget sm ''Hidden costs/externalities'') (dget sm ''hidden_costs''))
      in [(''SM.Actors/Incentives'', PList (if actors \<noteq> [] then actors else incentives)),
          (''SM.Corruption surfaces'', PList corruption),
          (''SM.Hidden costs/externalities'', PList hidden_costs)])"

text \<open>
  The body takes the DS test as a truth value: the source reads DS only when fewer than
  three facts are listed (\<^verbatim>\<open>and\<close> does not evaluate its second operand otherwise).
\<close>

definition bias_gate_body :: "pydict \<Rightarrow> pydict \<Rightarrow> bool \<Rightarrow> gate_result" where
  "bias_gate_body sm es has_options =
     (let missing = count_missing_required (bias_required sm);
          facts = truth_facts es;
          c1 = (missing \<noteq> []);
          c2 = (length facts < 3 \<and> has_options)
      in \<lparr> gate = ''Bias Gate'',
           verdict = (if length missing = 0 then ''PASS'' else ''FAIL''),
           gr_notes = (if c1 then [Note_missing missing] else [])
                    @ (if c2 then [Note_bias_confirmation] else []),
           gr_fixes = (if c1 then [Fix_bias_missing] else [])
                    @ (if c2 then [Fix_bias_confirmation] else []),
           score = score_from (length missing) (if length facts < 3 then 1 / 10 else 0) \<rparr>)"

definition bias_gate :: "pydict \<Rightarrow> error + gate_result" where
  "bias_gate artifacts =
     (case doc artifacts ''SM'' of Inl e \<Rightarrow> Inl e | Inr sm \<Rightarrow>
       (case doc artifacts ''ES'' of Inl e \<Rightarrow> Inl e | Inr es \<Rightarrow>
          if length (truth_facts es) < 3 then
            (case doc artifacts ''DS'' of Inl e \<Rightarrow> Inl e | Inr ds \<Rightarrow>
               Inr (bias_gate_body sm es (ds_has_options ds)))
          else Inr (bias_gate_body sm es False)))"

subsection \<open>Gate 5: Clarity\<close>

definition clarity_required :: "pydict \<Rightarrow> (string \<times> pyval) list" where
  "clarity_required ic =
     (let goal = py_or (dget ic ''Goal'') (dget ic ''goal'');
          deliverable = py_or (dget ic ''Deliverable'') (dget ic ''deliverable'');
          success_metrics = py_or (dget ic ''Success metrics'') (dget ic ''success_metrics'')
      in [(''IC.Goal'', goal),
          (''IC.Deliverable'', deliverable),
          (''IC.Success metrics'', success_metrics)])"

definition citizen_summary :: "pydict \<Rightarrow> pydict \<Rightarrow> pydict \<Rightarrow> pyval" where
  "citizen_summary artifacts ic ap =
     py_or (py_or (py_or (py_or (dget artifacts ''CitizenSummary'') (dget ic ''Citizen summary''))
                         (dget ic ''citizen_summary''))
                  (dget ap ''Citizen summary''))
           (dget ap ''citizen_summary'')"

definition clarity_gate_body :: "pydict \<Rightarrow> pydict \<Rightarrow> pydict \<Rightarrow> gate_result" where
  "clarity_gate_body artifacts ic ap =
     (let cs = citizen_summary artifacts ic ap;
          checklist = py_or (py_or (dget ap ''Execution checklist'') (dget ap ''checklist''))
                            (dget ap ''Checklist'');
          missing = count_missing_required (clarity_required ic);
          c1 = (missing \<noteq> []);
          c2 = (\<not> is_nonempty_str cs);
          c3 = (\<not> truthy checklist)
      in \<lparr> gate = ''Clarity Gate'',
           verdict = (if length missing = 0 \<and> is_nonempty_str cs then ''PASS'' else ''FAIL''),
           gr_notes = (if c1 then [Note_missing missing] else [])
                    @ (if c2 then [Note_clarity_summary] else [])
                    @ (if c3 then [Note_clarity_checklist] else []),
           gr_fixes = (if c1 then [Fix_clarity_missing] else [])
                    @ (if c2 then [Fix_clarity_summary] else [])
                    @ (if c3 then [Fix_clarity_checklist] else []),
           score = score_from (length missing) (if \<not> truthy cs then 1 / 10 else 0) \<rparr>)"

definition clarity_gate :: "pydict \<Rightarrow> error + gate_result" where
  "clarity_gate artifacts =
     (case doc artifacts ''IC'' of Inl e \<Rightarrow> Inl e | Inr ic \<Rightarrow>
       (case doc artifacts ''AP'' of Inl e \<Rightarrow> Inl e | Inr ap \<Rightarrow>
          Inr (clarity_gate_body artifacts ic ap)))"

subsection \<open>AuditGate.evaluate\<close>

text \<open>
  The loop over one failed gate's fixes: \<^verbatim>\<open>if f not in fixes: fixes.append(f)\<close>.
\<close>

fun add_fixes :: "fix_msg list \<Rightarrow> fix_msg list \<Rightarrow> fix_msg list" where
  "add_fixes acc [] = acc"
| "add_fixes acc (f # fs) = add_fixes (if f \<in> set acc then acc else acc @ [f]) fs"

text \<open>The loop over the gate results, which skips the gates that passed.\<close>

fun collect_fixes :: "fix_msg list \<Rightarrow> gate_result list \<Rightarrow> fix_msg list" where
  "collect_fixes acc [] = acc"
| "collect_fixes acc (gr # grs) =
     collect_fixes (if verdict gr = ''FAIL'' then add_fixes acc (gr_fixes gr) else acc) grs"

definition summary_of :: "string \<Rightarrow> gate_result list \<Rightarrow> summary" where
  "summary_of overall grs =
     (if overall = ''PASS'' then Summary_pass
      else Summary_fail (map gate (filter (\<lambda>gr. verdict gr = ''FAIL'') grs)))"

text \<open>
  \<^verbatim>\<open>evaluate\<close> of an AuditGate built with \<open>strict\<close>, on a context with the mappings
  \<open>artifacts\<close> and \<open>md\<close> (on a mapping, \<^verbatim>\<open>ctx.artifacts or {}\<close> changes nothing), at the
  clock reading \<open>now\<close>.  The gates run in the source's order; the first that raises ends
  the call.
\<close>

definition evaluate :: "bool \<Rightarrow> string \<Rightarrow> pydict \<Rightarrow> pydict \<Rightarrow> error + audit_report" where
  "evaluate strict now artifacts md =
     (case truth_gate artifacts of Inl e \<Rightarrow> Inl e | Inr truth \<Rightarrow>
       (case logic_gate artifacts of Inl e \<Rightarrow> Inl e | Inr logic \<Rightarrow>
         (case risk_gate artifacts of Inl e \<Rightarrow> Inl e | Inr risk \<Rightarrow>
           (case bias_gate artifacts of Inl e \<Rightarrow> Inl e | Inr bias \<Rightarrow>
             (case clarity_gate artifacts of Inl e \<Rightarrow> Inl e | Inr clarity \<Rightarrow>
                (let grs = [truth, logic, risk, bias, clarity];
                     overall = (if list_all (\<lambda>gr. verdict gr = ''PASS'') grs then ''PASS'' else ''FAIL'');
                     fs = collect_fixes [] grs
                 in Inr \<lparr> codex_id = ''CIVIC-OS-TH v1.0'',
                          timestamp_utc = now,
                          overall_verdict = overall,
                          gate_results = grs,
                          summary = summary_of overall grs,
                          minimum_fixes = take 8 fs,
                          metadata = dict_merge [(''strict'', PBool strict)] md \<rparr>))))))"

section \<open>Falsifier engine (falsifier\_engine.py)\<close>

subsection \<open>Numeric coercion and percentage change\<close>

text \<open>
  \<^verbatim>\<open>float(n)\<close> of an integer raises OverflowError when \<open>n\<close> rounds to \<open>2 ^ 1024\<close> or more.
  \<^verbatim>\<open>float(s)\<close> of a string follows the grammar of Python's built-in, which is not code
  of this repository: the functions below take it as the parameter \<open>pf\<close>, \<open>None\<close> where
  the built-in raises ValueError.
\<close>

definition float_of_int :: "int \<Rightarrow> real option" where
  "float_of_int n = (if \<bar>n\<bar> < 2 ^ 1024 - 2 ^ 970 then Some (real_of_int n) else None)"

text \<open>
  \<^verbatim>\<open>_num\<close> of falsifier\_engine.py: \<^verbatim>\<open>None\<close> for \<^verbatim>\<open>None\<close> and for whatever \<^verbatim>\<open>float\<close>
  rejects (a list and a mapping with TypeError).  A boolean is an \<^verbatim>\<open>int\<close> for \<^verbatim>\<open>float\<close>.
\<close>

fun falsifier_num :: "(string \<Rightarrow> real option) \<Rightarrow> pyval \<Rightarrow> real option" where
  "falsifier_num pf PNone = None"
| "falsifier_num pf (PBool b) = Some (if b then 1 else 0)"
| "falsifier_num pf (PInt n) = float_of_int n"
| "falsifier_num pf (PFloat r) = Some r"
| "falsifier_num pf (PStr s) = pf s"
| "falsifier_num pf (PList xs) = None"
| "falsifier_num pf (PDict d) = None"

fun falsifier_pct_change :: "real option \<Rightarrow> real option \<Rightarrow> real option" where
  "falsifier_pct_change None base = None"
| "falsifier_pct_change (Some cur) None = None"
| "falsifier_pct_change (Some cur) (Some base) =
     (if base = 0 then None else Some ((cur - base) / \<bar>base\<bar>))"

subsection \<open>Data models\<close>

record metrics_snapshot =
  current :: pydict
  baseline :: "pydict option"
  window :: string
  snap_metadata :: pydict

record falsifier_hit =
  code :: string
  title :: string
  severity :: string
  evidence :: pydict
  recommendation :: string




record thresholds =
  latency_improve :: real
  error_worsen :: real
  throughput_improve :: real
  disparity_worsen :: real
  transparency_min :: real
  burden_worsen :: real
  shadow_paperwork_worsen :: real

record falsifier_engine =
  thresholds :: thresholds
  require_baseline :: bool



subsection \<open>FalsifierEngine.evaluate\<close>

text \<open>\<^verbatim>\<open>not base\<close>: no baseline, or an empty one.\<close>

definition base_given :: "pydict option \<Rightarrow> bool" where
  "base_given base = (case base of None \<Rightarrow> False | Some b \<Rightarrow> b \<noteq> [])"

definition base_num :: "(string \<Rightarrow> real option) \<Rightarrow> pydict option \<Rightarrow> string \<Rightarrow> real option" where
  "base_num pf base key =
     (case base of None \<Rightarrow> None
      | Some b \<Rightarrow> if b \<noteq> [] then falsifier_num pf (dget b key) else None)"

text \<open>The local function \<^verbatim>\<open>ch\<close>.\<close>

definition ch :: "(string \<Rightarrow> real option) \<Rightarrow> pydict \<Rightarrow> pydict option \<Rightarrow> string \<Rightarrow> real option" where
  "ch pf cur base key = falsifier_pct_change (falsifier_num pf (dget cur key)) (base_num pf base key)"











section \<open>Metrics (metrics.py)\<close>

text \<open>\<^verbatim>\<open>_num\<close> of metrics.py: as the engine's, but a boolean is refused first.\<close>

fun metrics_num :: "(string \<Rightarrow> real option) \<Rightarrow> pyval \<Rightarrow> real option" where
  "metrics_num pf PNone = None"
| "metrics_num pf (PBool b) = None"
| "metrics_num pf (PInt n) = float_of_int n"
| "metrics_num pf (PFloat r) = Some r"
| "metrics_num pf (PStr s) = pf s"
| "metrics_num pf (PList xs) = None"
| "metrics_num pf (PDict d) = None"

fun metrics_pct_change :: "real option \<Rightarrow> real option \<Rightarrow> real option" where
  "metrics_pct_change None base = None"
| "metrics_pct_change (Some cur) None = None"
| "metrics_pct_change (Some cur) (Some base) =
     (if base = 0 then None else Some ((cur - base) / \<bar>base\<bar>))"

definition DEFAULT_REQUIRED_METRICS :: "string list" where
  "DEFAULT_REQUIRED_METRICS =
     [''service_latency_median'', ''service_latency_p90'', ''throughput'', ''error_rate'',
      ''transparency_coverage'', ''citizen_burden_index'', ''disparity_index'']"

text \<open>\<^verbatim>\<open>__init__\<close>: \<^verbatim>\<open>required_metrics or list(DEFAULT_REQUIRED_METRICS)\<close>.\<close>

definition init_required :: "string list option \<Rightarrow> string list" where
  "init_required rm =
     (case rm of None \<Rightarrow> DEFAULT_REQUIRED_METRICS
      | Some ks \<Rightarrow> if ks \<noteq> [] then ks else DEFAULT_REQUIRED_METRICS)"

text \<open>\<^verbatim>\<open>k.endswith(suffix)\<close>.\<close>

definition endswith :: "string \<Rightarrow> string \<Rightarrow> bool" where
  "endswith k suffix = (length suffix \<le> length k \<and> drop (length k - length suffix) k = suffix)"

text \<open>
  \<^verbatim>\<open>Metrics.normalize\<close>: a known metric key gets its float where \<^verbatim>\<open>_num\<close> finds one and
  keeps its value otherwise.
\<close>

definition normalize :: "(string \<Rightarrow> real option) \<Rightarrow> string list \<Rightarrow> pydict \<Rightarrow> pydict" where
  "normalize pf required_metrics raw =
     map (\<lambda>(k, v).
            if k \<in> set required_metrics \<or> endswith k ''_index'' \<or> endswith k ''_rate''
               \<or> endswith k ''_coverage''
            then (case metrics_num pf v of Some n \<Rightarrow> (k, PFloat n) | None \<Rightarrow> (k, v))
            else (k, v)) raw"

record metrics_validation =
  ok :: bool
  missing :: "string list"
  non_numeric :: "string list"
  validation_notes :: "string list"

definition validate ::
  "(string \<Rightarrow> real option) \<Rightarrow> string list \<Rightarrow> pydict \<Rightarrow> pydict option \<Rightarrow> metrics_validation" where
  "validate pf required_metrics cur base =
     (let missing = filter (\<lambda>k. map_of cur k = None \<or> dget cur k = PNone) required_metrics;
          non_numeric = filter (\<lambda>k. map_of cur k \<noteq> None \<and> dget cur k \<noteq> PNone
                                      \<and> metrics_num pf (dget cur k) = None) required_metrics
      in \<lparr> ok = (length missing = 0 \<and> length non_numeric = 0),
           missing = missing,
           non_numeric = non_numeric,
           validation_notes =
             (if base = None
              then [''Baseline missing: pct deltas may be unavailable. (OK for exploratory pilots.)'']
              else []) \<rparr>)"

text \<open>
  MetricsDelta.  The source fills \<^verbatim>\<open>absolute\<close> and \<^verbatim>\<open>pct\<close> in the iteration order of a
  \<^verbatim>\<open>set\<close> of keys, which Python leaves open, so the two mappings are maps here: a key of
  neither snapshot has no entry, and an entry is \<^verbatim>\<open>None\<close> or a float.
\<close>

record metrics_delta =
  delta_current :: pydict
  delta_baseline :: "pydict option"
  absolute :: "string \<Rightarrow> real option option"
  pct :: "string \<Rightarrow> real option option"
  validation :: metrics_validation

definition compute_deltas ::
  "(string \<Rightarrow> real option) \<Rightarrow> string list \<Rightarrow> pydict \<Rightarrow> pydict option \<Rightarrow> metrics_delta" where
  "compute_deltas pf required_metrics current0 baseline0 =
     (let cur = normalize pf required_metrics current0;
          base = (if base_given baseline0 then map_option (normalize pf required_metrics) baseline0
                  else None);
          keys = set (map fst cur) \<union> (case base of Some b \<Rightarrow> set (map fst b) | None \<Rightarrow> {});
          c = (\<lambda>k. metrics_num pf (dget cur k));
          b = (\<lambda>k. case base of Some bd \<Rightarrow> metrics_num pf (dget bd k) | None \<Rightarrow> None)
      in \<lparr> delta_current = cur,
           delta_baseline = base,
           absolute = (\<lambda>k. if k \<in> keys
                            then Some (case (c k, b k) of (Some x, Some y) \<Rightarrow> Some (x - y) | _ \<Rightarrow> None)
                            else None),
           pct = (\<lambda>k. if k \<in> keys then Some (metrics_pct_change (c k) (b k)) else None),
           validation = validate pf required_metrics cur base \<rparr>)"

section \<open>Signed memory (signed\_memory.py)\<close>

subsection \<open>The library functions\<close>

text \<open>
  The module calls \<^verbatim>\<open>hashlib.sha256\<close>, \<^verbatim>\<open>hmac.new\<close>, \<^verbatim>\<open>json.dumps\<close> and \<^verbatim>\<open>json.loads\<close> of
  Python's standard library, which are not code of this repository.  The model takes them
  as one parameter: \<open>lib_sha256_hex\<close> for \<^verbatim>\<open>_sha256_hex\<close>, \<open>lib_hmac_sha256_hex\<close> for
  \<^verbatim>\<open>_hmac_sha256_hex\<close> (secret first), \<open>lib_canonical_json\<close> for \<^verbatim>\<open>_canonical_json\<close>
  (\<^verbatim>\<open>json.dumps\<close> with sorted keys and the separators \<^verbatim>\<open>","\<close> and \<^verbatim>\<open>":"\<close>) and \<open>lib_json_loads\<close>
  for \<^verbatim>\<open>json.loads\<close>, \<open>None\<close> where it raises the JSON parse error.
\<close>

record library =
  lib_sha256_hex :: "string \<Rightarrow> string"
  lib_hmac_sha256_hex :: "string \<Rightarrow> string \<Rightarrow> string"
  lib_canonical_json :: "pyval \<Rightarrow> string"
  lib_json_loads :: "string \<Rightarrow> pyval option"

subsection \<open>SignedEntry\<close>

text \<open>
  Field \<^verbatim>\<open>timestamp_utc\<close> is \<open>entry_timestamp_utc\<close> here.  A SignedEntry built without
  \<^verbatim>\<open>prev_hash\<close>, \<^verbatim>\<open>hash\<close> and \<^verbatim>\<open>signature\<close> has the empty string in each.
\<close>

record signed_entry =
  run_id :: string
  seq :: int
  event :: string
  payload :: pydict
  entry_timestamp_utc :: string
  prev_hash :: string
  hash :: string
  signature :: string

definition to_dict :: "signed_entry \<Rightarrow> pydict" where
  "to_dict e =
     [(''run_id'', PStr (run_id e)),
      (''seq'', PInt (seq e)),
      (''event'', PStr (event e)),
      (''timestamp_utc'', PStr (entry_timestamp_utc e)),
      (''prev_hash'', PStr (prev_hash e)),
      (''hash'', PStr (hash e)),
      (''signature'', PStr (signature e)),
      (''payload'', PDict (payload e))]"

subsection \<open>SignedMemory\<close>

text \<open>
  The object's fields \<^verbatim>\<open>_secret\<close>, \<^verbatim>\<open>_seq\<close> and \<^verbatim>\<open>_prev_hash\<close>, and the log file at
  \<^verbatim>\<open>self.path\<close>: \<open>None\<close> while the file does not exist, else its lines in order, each
  without its line end.
\<close>

record signed_memory =
  secret :: "string option"
  mem_seq :: int
  mem_prev_hash :: string
  log_file :: "string list option"

text \<open>\<^verbatim>\<open>if line.strip()\<close>: a line with something else than whitespace on it.\<close>

definition nonblank :: "string \<Rightarrow> bool" where
  "nonblank line = (strip line \<noteq> [])"

text \<open>
  \<^verbatim>\<open>_load_tail\<close>.  \<open>to_int\<close> and \<open>to_str\<close> stand for Python's \<^verbatim>\<open>int\<close> (\<open>None\<close> where it
  raises) and \<^verbatim>\<open>str\<close> on the values of the last line.  Any exception of the \<^verbatim>\<open>try\<close> block
  (an unparsable line, a line that is no mapping, a \<^verbatim>\<open>seq\<close> that \<^verbatim>\<open>int\<close> refuses) resets
  the chain.
\<close>

definition dget_default :: "pydict \<Rightarrow> string \<Rightarrow> pyval \<Rightarrow> pyval" where
  "dget_default d k dflt = (case map_of d k of None \<Rightarrow> dflt | Some v \<Rightarrow> v)"

definition load_tail ::
  "library \<Rightarrow> (pyval \<Rightarrow> int option) \<Rightarrow> (pyval \<Rightarrow> string) \<Rightarrow> signed_memory \<Rightarrow> signed_memory" where
  "load_tail lib to_int to_str mem =
     (case log_file mem of
        None \<Rightarrow> mem
      | Some lines \<Rightarrow>
          (case rev (filter nonblank lines) of
             [] \<Rightarrow> mem
           | last_line # earlier \<Rightarrow>
               (case lib_json_loads lib last_line of
                  Some (PDict obj) \<Rightarrow>
                    (case to_int (dget_default obj ''seq'' (PInt 0)) of
                       Some n \<Rightarrow>
                         mem \<lparr> mem_seq := n + 1,
                               mem_prev_hash := to_str (dget_default obj ''hash'' (PStr '''')) \<rparr>
                     | None \<Rightarrow> mem \<lparr> mem_seq := 0, mem_prev_hash := '''' \<rparr>)
                | _ \<Rightarrow> mem \<lparr> mem_seq := 0, mem_prev_hash := '''' \<rparr>)))"

text \<open>
  \<^verbatim>\<open>__init__\<close>, on the value of the environment variable SIGNING\_SECRET (empty when it
  is not set) and the log file as it is found.
\<close>

definition init_memory ::
  "library \<Rightarrow> (pyval \<Rightarrow> int option) \<Rightarrow> (pyval \<Rightarrow> string) \<Rightarrow> string \<Rightarrow> string list option
     \<Rightarrow> signed_memory" where
  "init_memory lib to_int to_str env_secret found =
     load_tail lib to_int to_str
       \<lparr> secret = (if env_secret \<noteq> [] then Some env_secret else None),
         mem_seq = 0,
         mem_prev_hash = '''',
         log_file = found \<rparr>"

definition compute_hash :: "library \<Rightarrow> pydict \<Rightarrow> string" where
  "compute_hash lib entry_dict =
     (let d = dict_set entry_dict ''signature'' (PStr '''')
      in lib_sha256_hex lib (lib_canonical_json lib (PDict d)))"

definition compute_signature :: "library \<Rightarrow> signed_memory \<Rightarrow> string \<Rightarrow> string" where
  "compute_signature lib mem entry_hash =
     (case secret mem of
        None \<Rightarrow> ''''
      | Some key \<Rightarrow> lib_hmac_sha256_hex lib key entry_hash)"

text \<open>Opening the file for appending creates it; one line is written.\<close>

definition write_line :: "string list option \<Rightarrow> string \<Rightarrow> string list option" where
  "write_line f line = (case f of None \<Rightarrow> Some [line] | Some lines \<Rightarrow> Some (lines @ [line]))"

text \<open>\<^verbatim>\<open>append\<close>: the memory afterwards and the entry that is returned.\<close>

definition append :: "library \<Rightarrow> signed_memory \<Rightarrow> signed_entry \<Rightarrow> signed_memory \<times> signed_entry" where
  "append lib mem entry0 =
     (let entry1 = entry0 \<lparr> seq := mem_seq mem, prev_hash := mem_prev_hash mem \<rparr>;
          entry_dict = to_dict entry1;
          entry2 = entry1 \<lparr> hash := compute_hash lib entry_dict \<rparr>;
          entry3 = entry2 \<lparr> signature := compute_signature lib mem (hash entry2) \<rparr>
      in (mem \<lparr> log_file := write_line (log_file mem) (lib_canonical_json lib (PDict (to_dict entry3))),
                mem_prev_hash := hash entry3,
                mem_seq := mem_seq mem + 1 \<rparr>,
          entry3))"

text \<open>Appending a list of entries in turn: the memory and the entries returned.\<close>

fun append_all ::
  "library \<Rightarrow> signed_memory \<Rightarrow> signed_entry list \<Rightarrow> signed_memory \<times> signed_entry list" where
  "append_all lib mem [] = (mem, [])"
| "append_all lib mem (e # es) =
     (let (mem1, e1) = append lib mem e;
          (mem2, es2) = append_all lib mem1 es
      in (mem2, e1 # es2))"

subsection \<open>verify\_chain\<close>

text \<open>
  Python's \<^verbatim>\<open>==\<close> on the values that \<^verbatim>\<open>json.loads\<close> yields: numbers and booleans compare
  by value, strings, \<^verbatim>\<open>None\<close> and lists structurally, mappings as sets of items.
\<close>

definition num_val :: "pyval \<Rightarrow> real option" where
  "num_val v = (case v of PBool b \<Rightarrow> Some (if b then 1 else 0)
                | PInt n \<Rightarrow> Some (real_of_int n)
                | PFloat r \<Rightarrow> Some r
                | _ \<Rightarrow> None)"

function (sequential) py_eq :: "pyval \<Rightarrow> pyval \<Rightarrow> bool" where
  "py_eq PNone w = (w = PNone)"
| "py_eq (PBool b) w = (num_val w = Some (if b then 1 else 0))"
| "py_eq (PInt n) w = (num_val w = Some (real_of_int n))"
| "py_eq (PFloat r) w = (num_val w = Some r)"
| "py_eq (PStr s) w = (w = PStr s)"
| "py_eq (PList xs) w =
     (case w of PList ys \<Rightarrow> length xs = length ys \<and> list_all (\<lambda>(x, y). py_eq x y) (zip xs ys)
      | _ \<Rightarrow> False)"
| "py_eq (PDict d) w =
     (case w of
        PDict e \<Rightarrow>
          list_all (\<lambda>(k, v). case map_of e k of Some u \<Rightarrow> py_eq v u | None \<Rightarrow> False) d
          \<and> list_all (\<lambda>(k, u). map_of d k \<noteq> None) e
      | _ \<Rightarrow> False)"
  by pat_completeness auto
termination
proof (relation "measure (\<lambda>(v, w). size v)")
  show "wf (measure (\<lambda>(v, w). size v))"
    by simp
next
  fix xs :: "pyval list" and w ys z x y
  assume "w = PList ys" and "z \<in> set (zip xs ys)" and "(x, y) = z"
  then have "x \<in> set xs"
    by (metis set_zip_leftD)
  then have "size x \<le> size_list size xs"
    by (simp add: size_list_estimation')
  then show "((x, y), PList xs, w) \<in> measure (\<lambda>(v, w). size v)"
    by simp
next
  fix d :: "(string \<times> pyval) list" and w e z k v u
  assume "w = PDict e" and "z \<in> set d" and "(k, v) = z" and "map_of e k = Some u"
  then have "(k, v) \<in> set d"
    by simp
  then have "size_prod (\<lambda>x. 0) size (k, v) \<le> size_list (size_prod (\<lambda>x. 0) size) d"
    by (rule size_list_estimation') simp
  then show "((v, u), PDict d, w) \<in> measure (\<lambda>(v, w). size v)"
    by simp
qed

text \<open>
  The three notes, each with the value of \<^verbatim>\<open>obj.get('seq')\<close> that the source formats into
  it, and the note of a missing log.
\<close>

datatype verify_note =
    No_log_found
  | Chain_mismatch pyval
  | Hash_mismatch pyval
  | Signature_mismatch pyval

text \<open>The values of the report mapping.\<close>

datatype report_value = RBool bool | RInt int | RNotes "verify_note list"

text \<open>The loop's variables \<^verbatim>\<open>checked\<close>, \<^verbatim>\<open>prev_hash\<close>, \<^verbatim>\<open>bad\<close> and \<^verbatim>\<open>notes\<close>.\<close>

record verify_state =
  checked :: int
  vs_prev_hash :: pyval
  bad :: int
  vs_notes :: "verify_note list"

text \<open>
  One pass of the loop body on a line that is not blank.  \<^verbatim>\<open>json.loads\<close> may raise; a
  parsed value that is no mapping has no \<^verbatim>\<open>get\<close>.
\<close>

definition verify_line ::
  "library \<Rightarrow> string option \<Rightarrow> verify_state \<Rightarrow> string \<Rightarrow> error + verify_state" where
  "verify_line lib key st line =
     (case lib_json_loads lib line of
        None \<Rightarrow> Inl JSONDecodeError
      | Some (PDict obj) \<Rightarrow>
          (let chain_bad = \<not> py_eq (dget_default obj ''prev_hash'' (PStr '''')) (vs_prev_hash st);
               recompute = dict_set obj ''signature'' (PStr '''');
               expected_hash = lib_sha256_hex lib (lib_canonical_json lib (PDict recompute));
               hash_bad = \<not> py_eq (dget obj ''hash'') (PStr expected_hash);
               sig_bad = (case key of
                            None \<Rightarrow> False
                          | Some k \<Rightarrow>
                              \<not> py_eq (dget obj ''signature'')
                                       (PStr (lib_hmac_sha256_hex lib k expected_hash)));
               seq_val = dget obj ''seq''
           in Inr \<lparr> checked = checked st + 1,
                    vs_prev_hash = dget_default obj ''hash'' (PStr ''''),
                    bad = bad st + (if chain_bad then 1 else 0) + (if hash_bad then 1 else 0)
                          + (if sig_bad then 1 else 0),
                    vs_notes = vs_notes st
                      @ (if chain_bad then [Chain_mismatch seq_val] else [])
                      @ (if hash_bad then [Hash_mismatch seq_val] else [])
                      @ (if sig_bad then [Signature_mismatch seq_val] else []) \<rparr>)
      | Some other \<Rightarrow> Inl AttributeError)"

fun verify_lines ::
  "library \<Rightarrow> string option \<Rightarrow> verify_state \<Rightarrow> string list \<Rightarrow> error + verify_state" where
  "verify_lines lib key st [] = Inr st"
| "verify_lines lib key st (line # rest) =
     (if \<not> nonblank line then verify_lines lib key st rest
      else (case verify_line lib key st line of
              Inl e \<Rightarrow> Inl e
            | Inr st' \<Rightarrow> verify_lines lib key st' rest))"

definition verify_chain :: "library \<Rightarrow> signed_memory \<Rightarrow> error + (string \<times> report_value) list" where
  "verify_chain lib mem =
     (case log_file mem of
        None \<Rightarrow> Inr [(''ok'', RBool True), (''checked'', RInt 0), (''notes'', RNotes [No_log_found])]
      | Some lines \<Rightarrow>
          (case verify_lines lib (secret mem)
                  \<lparr> checked = 0, vs_prev_hash = PStr '''', bad = 0, vs_notes = [] \<rparr> lines of
             Inl e \<Rightarrow> Inl e
           | Inr st \<Rightarrow>
               Inr [(''ok'', RBool (bad st = 0)),
                    (''checked'', RInt (checked st)),
                    (''bad'', RInt (bad st)),
                    (''notes'', RNotes (take 20 (vs_notes st))),
                    (''signature_enabled'', RBool (secret mem \<noteq> None))]))"

section \<open>Notions of the specification and sample inputs\<close>

subsection \<open>Artifact bundles\<close>

text \<open>
  In the data model a document body is a mapping.  \<open>body_ok\<close> is the condition under
  which \<open>doc\<close> reads a body without raising (a mapping, or a falsy value that \<^verbatim>\<open>or {}\<close>
  replaces), \<open>bundle_ok\<close> asks it of the seven documents, and \<open>body\<close> is the mapping
  that the gates then work on.
\<close>

definition body_ok :: "pydict \<Rightarrow> string \<Rightarrow> bool" where
  "body_ok artifacts k = (is_dict (dget artifacts k) \<or> \<not> truthy (dget artifacts k))"

definition bundle_ok :: "pydict \<Rightarrow> bool" where
  "bundle_ok artifacts =
     list_all (body_ok artifacts) [''IC'', ''ES'', ''FPF'', ''WM'', ''SM'', ''DS'', ''AP'']"

definition body :: "pydict \<Rightarrow> string \<Rightarrow> pydict" where
  "body artifacts k = (case doc artifacts k of Inr d \<Rightarrow> d | Inl e \<Rightarrow> [])"

text \<open>
  The fifteen required values as the five gates extract them, the four hard conditions,
  and the five gate results of a bundle.
\<close>

definition required_fields :: "pydict \<Rightarrow> (string \<times> pyval) list" where
  "required_fields a =
     truth_required (body a ''ES'') (body a ''FPF'')
     @ logic_required (body a ''WM'') (body a ''FPF'')
     @ risk_required (body a ''DS'') (body a ''AP'')
     @ bias_required (body a ''SM'')
     @ clarity_required (body a ''IC'')"

definition hard_conditions :: "pydict \<Rightarrow> bool" where
  "hard_conditions a =
     (has_any_textual_evidence (body a ''ES'')
      \<and> options_count (body a ''DS'') \<ge> 2
      \<and> length (risk_stages (body a ''AP'')) > 0
      \<and> is_nonempty_str (citizen_summary a (body a ''IC'') (body a ''AP'')))"

definition gates_of :: "pydict \<Rightarrow> gate_result list" where
  "gates_of a =
     [truth_gate_body (body a ''ES'') (body a ''FPF'') (body a ''DS''),
      logic_gate_body (body a ''WM'') (body a ''DS'') (body a ''FPF''),
      risk_gate_body (body a ''DS'') (body a ''AP''),
      bias_gate_body (body a ''SM'') (body a ''ES'') (ds_has_options (body a ''DS'')),
      clarity_gate_body a (body a ''IC'') (body a ''AP'')]"

subsection \<open>Minimum fixes, in the specification's words and in the code's\<close>

text \<open>Deduplication by exact match that keeps the first occurrence.\<close>

fun dedup_first :: "'a list \<Rightarrow> 'a list" where
  "dedup_first [] = []"
| "dedup_first (x # xs) = x # dedup_first (filter (\<lambda>y. y \<noteq> x) xs)"

definition failed_gates :: "gate_result list \<Rightarrow> gate_result list" where
  "failed_gates grs = filter (\<lambda>gr. verdict gr = ''FAIL'') grs"

text \<open>
  The specification: the first fix string of each failed gate, in gate order,
  deduplicated, cut to eight.
\<close>

definition spec_minimum_fixes :: "gate_result list \<Rightarrow> fix_msg list" where
  "spec_minimum_fixes grs =
     take 8 (dedup_first (concat (map (\<lambda>gr. take 1 (gr_fixes gr)) (failed_gates grs))))"

text \<open>Every fix string of every failed gate, in gate order.\<close>

definition all_fixes_of_failed :: "gate_result list \<Rightarrow> fix_msg list" where
  "all_fixes_of_failed grs = concat (map gr_fixes (failed_gates grs))"

subsection \<open>Sample bundles\<close>

text \<open>
  A bundle with every required field and every hard condition (the passing bundle of
  tests/test\_audit\_gate.py, shortened), and the same bundle with a blank string as
  ES.Facts.
\<close>

definition sample_ES :: pydict where
  "sample_ES = [(''Facts'', PList [PStr ''baseline collected'']),
                (''Assumptions'', PList [PStr ''pilot reflects reality'']),
                (''Sources'', PList [PStr ''internal metrics''])]"

definition sample_rest :: pydict where
  "sample_rest =
    [(''IC'', PDict [(''Goal'', PStr ''Reduce latency''), (''Deliverable'', PStr ''Staged plan''),
                     (''Success metrics'', PList [PStr ''service_latency_median'']),
                     (''Citizen summary'', PStr ''We will reduce latency.'')]),
     (''FPF'', PDict [(''Variables'', PList [PStr ''queue_size'']),
                      (''Levers'', PList [PStr ''staged_rollout'']),
                      (''Falsifiers'', PList [PStr ''Latency down but errors up'']),
                      (''Minimal tests'', PList [PStr ''pilot test''])]),
     (''WM'', PDict [(''Causal structure'', PStr ''queue/capacity affects latency''),
                     (''Loops'', PList [PStr ''rework loop''])]),
     (''SM'', PDict [(''Actors & incentives'', PList [PStr ''citizens want fast'']),
                     (''Hidden costs/externalities'', PList [PStr ''shadow paperwork'']),
                     (''Corruption surfaces'', PList [PStr ''discretion without logs''])]),
     (''DS'', PDict [(''Option A'', PDict [(''name'', PStr ''Safe'')]),
                     (''Option B'', PDict [(''name'', PStr ''Balanced'')]),
                     (''Global downside bound'', PStr ''no scale if falsified''),
                     (''Rollback plan'', PStr ''revert''), (''Kill-switch'', PStr ''freeze'')]),
     (''AP'', PDict [(''Stages'', PList [PStr ''Pilot'']), (''Instrumentation'', PStr ''collect metrics''),
                     (''Metrics & thresholds'', PDict [(''error_rate'', PStr ''<= +10%'')]),
                     (''Execution checklist'', PList [PStr ''log everything''])])]"

definition sample_bundle :: pydict where
  "sample_bundle = (''ES'', PDict sample_ES) # sample_rest"

definition blank_facts_ES :: pydict where
  "blank_facts_ES = [(''Facts'', PStr ''   ''),
                     (''Assumptions'', PList [PStr ''pilot reflects reality'']),
                     (''Sources'', PList [PStr ''internal metrics''])]"

definition blank_facts_bundle :: pydict where
  "blank_facts_bundle = (''ES'', PDict blank_facts_ES) # sample_rest"

text \<open>A bundle whose ES body is a sentence instead of a mapping.\<close>

definition text_body_bundle :: pydict where
  "text_body_bundle = [(''ES'', PStr ''see the attached report'')]"

subsection \<open>Falsifier engine: hit codes and sample snapshots\<close>


text \<open>
  A stand-in for \<^verbatim>\<open>float\<close> on strings that refuses every string; the sample snapshots
  hold no strings, so it is never asked.
\<close>

definition refuse_str :: "string \<Rightarrow> real option" where
  "refuse_str s = None"




text \<open>Boolean-valued metrics: a flag that is set now, and was unset, or set, before.\<close>

definition flag_current :: pydict where
  "flag_current = [(''citizen_burden_index'', PBool True)]"

definition flag_baseline_unset :: pydict where
  "flag_baseline_unset = [(''citizen_burden_index'', PBool False)]"

definition flag_baseline_set :: pydict where
  "flag_baseline_set = [(''citizen_burden_index'', PBool True)]"


subsection \<open>Signed memory: sample runs\<close>

text \<open>
  The memory right after \<^verbatim>\<open>__init__\<close> on a run directory without a log file, with
  SIGNING\_SECRET unset.
\<close>

definition fresh_memory :: signed_memory where
  "fresh_memory = \<lparr> secret = None, mem_seq = 0, mem_prev_hash = '''', log_file = None \<rparr>"

text \<open>A SignedEntry as the orchestrator builds one: no hash and no signature yet.\<close>

definition sample_entry :: signed_entry where
  "sample_entry =
     \<lparr> run_id = ''r1'', seq = 0, event = ''RUN_START'', payload = [],
       entry_timestamp_utc = ''t0'', prev_hash = '''', hash = '''', signature = '''' \<rparr>"

text \<open>
  The keys of the report of \<^verbatim>\<open>verify_chain\<close> on a log that exists, and the notes under
  its key \<^verbatim>\<open>notes\<close>.
\<close>

definition report_keys :: "string list" where
  "report_keys = [''ok'', ''checked'', ''bad'', ''notes'', ''signature_enabled'']"

definition notes_of :: "(string \<times> report_value) list \<Rightarrow> verify_note list" where
  "notes_of r = (case map_of r ''notes'' of Some (RNotes ns) \<Rightarrow> ns | _ \<Rightarrow> [])"



section \<open>Python's standard library, for the sample runs\<close>

text \<open>
  The sample runs of the signed memory need the library functions at work.  They are
  written here from their standards: SHA-256 from FIPS 180-4, HMAC from RFC 2104, JSON
  from RFC 8259 and the documentation of Python's \<^verbatim>\<open>json\<close> module.  The theorems that hold
  for every library do not use this section.
\<close>

subsection \<open>SHA-256\<close>

unbundle bit_operations_syntax

text \<open>A 32-bit word is a natural number below \<open>2 ^ 32\<close>; a byte one below 256.\<close>

definition add32 :: "nat \<Rightarrow> nat \<Rightarrow> nat" where
  "add32 x y = (x + y) mod 4294967296"

definition rotr :: "nat \<Rightarrow> nat \<Rightarrow> nat" where
  "rotr n x = x div 2 ^ n + (x mod 2 ^ n) * 2 ^ (32 - n)"

definition shr :: "nat \<Rightarrow> nat \<Rightarrow> nat" where
  "shr n x = x div 2 ^ n"

definition not32 :: "nat \<Rightarrow> nat" where
  "not32 x = 4294967295 - x"

definition Ch :: "nat \<Rightarrow> nat \<Rightarrow> nat \<Rightarrow> nat" where
  "Ch x y z = (x AND y) XOR (not32 x AND z)"

definition Maj :: "nat \<Rightarrow> nat \<Rightarrow> nat \<Rightarrow> nat" where
  "Maj x y z = (x AND y) XOR (x AND z) XOR (y AND z)"

definition bsig0 :: "nat \<Rightarrow> nat" where
  "bsig0 x = rotr 2 x XOR rotr 13 x XOR rotr 22 x"

definition bsig1 :: "nat \<Rightarrow> nat" where
  "bsig1 x = rotr 6 x XOR rotr 11 x XOR rotr 25 x"

definition ssig0 :: "nat \<Rightarrow> nat" where
  "ssig0 x = rotr 7 x XOR rotr 18 x XOR shr 3 x"

definition ssig1 :: "nat \<Rightarrow> nat" where
  "ssig1 x = rotr 17 x XOR rotr 19 x XOR shr 10 x"

definition H256 :: "nat list" where
  "H256 = [0x6a09e667, 0xbb67ae85, 0x3c6ef372, 0xa54ff53a,
           0x510e527f, 0x9b05688c, 0x1f83d9ab, 0x5be0cd19]"

definition K256 :: "nat list" where
  "K256 = concat
    [[0x428a2f98, 0x71374491, 0xb5c0fbcf, 0xe9b5dba5, 0x3956c25b, 0x59f111f1, 0x923f82a4, 0xab1c5ed5],
     [0xd807aa98, 0x12835b01, 0x243185be, 0x550c7dc3, 0x72be5d74, 0x80deb1fe, 0x9bdc06a7, 0xc19bf174],
     [0xe49b69c1, 0xefbe4786, 0x0fc19dc6, 0x240ca1cc, 0x2de92c6f, 0x4a7484aa, 0x5cb0a9dc, 0x76f988da],
     [0x983e5152, 0xa831c66d, 0xb00327c8, 0xbf597fc7, 0xc6e00bf3, 0xd5a79147, 0x06ca6351, 0x14292967],
     [0x27b70a85, 0x2e1b2138, 0x4d2c6dfc, 0x53380d13, 0x650a7354, 0x766a0abb, 0x81c2c92e, 0x92722c85],
     [0xa2bfe8a1, 0xa81a664b, 0xc24b8b70, 0xc76c51a3, 0xd192e819, 0xd6990624, 0xf40e3585, 0x106aa070],
     [0x19a4c116, 0x1e376c08, 0x2748774c, 0x34b0bcb5, 0x391c0cb3, 0x4ed8aa4a, 0x5b9cca4f, 0x682e6ff3],
     [0x748f82ee, 0x78a5636f, 0x84c87814, 0x8cc70208, 0x90befffa, 0xa4506ceb, 0xbef9a3f7, 0xc67178f2]]"

text \<open>
  The next word of the message schedule from the words so far, the newest first:
  \<open>W\<^sub>t = \<sigma>\<^sub>1(W\<^sub>t\<^sub>-\<^sub>2) + W\<^sub>t\<^sub>-\<^sub>7 + \<sigma>\<^sub>0(W\<^sub>t\<^sub>-\<^sub>1\<^sub>5) + W\<^sub>t\<^sub>-\<^sub>1\<^sub>6\<close>.
\<close>

fun next_w :: "nat list \<Rightarrow> nat" where
  "next_w (w1 # w2 # w3 # w4 # w5 # w6 # w7 # w8 # w9 # w10 # w11 # w12 # w13 # w14 # w15 # w16 # ws) =
     add32 (add32 (add32 (ssig1 w2) w7) (ssig0 w15)) w16"
| "next_w ws = 0"

text \<open>One round on the working variables \<open>a\<close> to \<open>h\<close>.\<close>

fun sha_round :: "nat \<Rightarrow> nat \<Rightarrow> nat list \<Rightarrow> nat list" where
  "sha_round k w [a, b, c, d, e, f, g, h] =
     (let t1 = add32 (add32 (add32 (add32 h (bsig1 e)) (Ch e f g)) k) w;
          t2 = add32 (bsig0 a) (Maj a b c)
      in [add32 t1 t2, a, b, c, add32 d t1, e, f, g])"
| "sha_round k w s = s"

text \<open>
  The 64 rounds, one for each constant: the first sixteen take the words of the block,
  the others the next word of the schedule.
\<close>

fun sha_rounds :: "nat list \<Rightarrow> nat list \<Rightarrow> nat list \<Rightarrow> nat list \<Rightarrow> nat list" where
  "sha_rounds [] pending hist s = s"
| "sha_rounds (k # ks) (w # pending) hist s = sha_rounds ks pending (w # hist) (sha_round k w s)"
| "sha_rounds (k # ks) [] hist s =
     sha_rounds ks [] (next_w hist # hist) (sha_round k (next_w hist) s)"

definition compress :: "nat list \<Rightarrow> nat list \<Rightarrow> nat list" where
  "compress block s = map2 add32 s (sha_rounds K256 block [] s)"

primrec zeros :: "nat \<Rightarrow> nat list" where
  "zeros 0 = []"
| "zeros (Suc n) = 0 # zeros n"

fun byte_count :: "nat list \<Rightarrow> nat" where
  "byte_count [] = 0"
| "byte_count (b # bs) = 1 + byte_count bs"

definition len_bytes :: "nat \<Rightarrow> nat list" where
  "len_bytes l = map (\<lambda>i. (l div 256 ^ i) mod 256) [7, 6, 5, 4, 3, 2, 1, 0]"

text \<open>Padding: the bit 1, zeros up to 56 modulo 64 bytes, the length in bits on 8 bytes.\<close>

definition pad :: "nat list \<Rightarrow> nat list" where
  "pad m = m @ [128] @ zeros ((119 - byte_count m mod 64) mod 64) @ len_bytes (8 * byte_count m)"

fun words_of :: "nat list \<Rightarrow> nat list" where
  "words_of (b1 # b2 # b3 # b4 # bs) = (((b1 * 256 + b2) * 256 + b3) * 256 + b4) # words_of bs"
| "words_of bs = []"

fun blocks_of :: "nat list \<Rightarrow> nat list list" where
  "blocks_of (w1 # w2 # w3 # w4 # w5 # w6 # w7 # w8 # w9 # w10 # w11 # w12 # w13 # w14 # w15 # w16 # ws) =
     [w1, w2, w3, w4, w5, w6, w7, w8, w9, w10, w11, w12, w13, w14, w15, w16] # blocks_of ws"
| "blocks_of ws = []"

definition sha256 :: "nat list \<Rightarrow> nat list" where
  "sha256 m = fold compress (blocks_of (words_of (pad m))) H256"

definition bytes_of_word :: "nat \<Rightarrow> nat list" where
  "bytes_of_word w = map (\<lambda>i. (w div 256 ^ i) mod 256) [3, 2, 1, 0]"

definition sha256_digest :: "nat list \<Rightarrow> nat list" where
  "sha256_digest m = concat (map bytes_of_word (sha256 m))"

definition hex_digit :: "nat \<Rightarrow> char" where
  "hex_digit n = ''0123456789abcdef'' ! n"

definition hex_byte :: "nat \<Rightarrow> string" where
  "hex_byte b = [hex_digit (b div 16), hex_digit (b mod 16)]"

definition hexdigest :: "nat list \<Rightarrow> string" where
  "hexdigest bs = concat (map hex_byte bs)"

text \<open>\<^verbatim>\<open>s.encode("utf-8")\<close> on code points below 256.\<close>

definition utf8 :: "string \<Rightarrow> nat list" where
  "utf8 s = concat (map (\<lambda>c. if of_char c < (128 :: nat) then [of_char c]
                             else [192 + of_char c div 64, 128 + of_char c mod 64]) s)"

definition sha256_hex :: "string \<Rightarrow> string" where
  "sha256_hex s = hexdigest (sha256_digest (utf8 s))"

subsection \<open>HMAC-SHA256\<close>

definition hmac_key_block :: "nat list \<Rightarrow> nat list" where
  "hmac_key_block k =
     (let k' = (if length k > 64 then sha256_digest k else k)
      in k' @ zeros (64 - length k'))"

definition hmac_sha256 :: "nat list \<Rightarrow> nat list \<Rightarrow> nat list" where
  "hmac_sha256 k msg =
     (let kb = hmac_key_block k
      in sha256_digest (map (\<lambda>b. b XOR 92) kb @ sha256_digest (map (\<lambda>b. b XOR 54) kb @ msg)))"

definition hmac_sha256_hex :: "string \<Rightarrow> string \<Rightarrow> string" where
  "hmac_sha256_hex key_str msg = hexdigest (hmac_sha256 (utf8 key_str) (utf8 msg))"

subsection \<open>json.dumps with sorted keys and the separators of the module\<close>

function dec :: "nat \<Rightarrow> string" where
  "dec n = (if n < 10 then [hex_digit n] else dec (n div 10) @ [hex_digit (n mod 10)])"
  by pat_completeness auto
termination
  by (relation "measure id") auto

definition int_repr :: "int \<Rightarrow> string" where
  "int_repr i = (if i < 0 then CHR ''-'' # dec (nat (- i)) else dec (nat i))"

text \<open>
  The escapes of \<^verbatim>\<open>json.dumps(..., ensure_ascii=False)\<close>: the quote, the backslash, the
  five short escapes, and \<^verbatim>\<open>\u00XX\<close> for the other control characters.
\<close>

definition escape_char :: "char \<Rightarrow> string" where
  "escape_char c =
     (let n = (of_char c :: nat) in
      if n = 34 then [CHR 0x5C, CHR 0x22]
      else if n = 92 then [CHR 0x5C, CHR 0x5C]
      else if n = 10 then [CHR 0x5C, CHR ''n'']
      else if n = 13 then [CHR 0x5C, CHR ''r'']
      else if n = 9 then [CHR 0x5C, CHR ''t'']
      else if n = 8 then [CHR 0x5C, CHR ''b'']
      else if n = 12 then [CHR 0x5C, CHR ''f'']
      else if n < 32 then [CHR 0x5C, CHR ''u'', CHR ''0'', CHR ''0''] @ hex_byte n
      else [c])"

definition json_string :: "string \<Rightarrow> string" where
  "json_string s = [CHR 0x22] @ concat (map escape_char s) @ [CHR 0x22]"

text \<open>Python orders strings by code point.\<close>

fun str_le :: "string \<Rightarrow> string \<Rightarrow> bool" where
  "str_le [] ys = True"
| "str_le (x # xs) [] = False"
| "str_le (x # xs) (y # ys) =
     ((of_char x :: nat) < of_char y \<or> (x = y \<and> str_le xs ys))"

fun insert_item :: "string \<times> 'a \<Rightarrow> (string \<times> 'a) list \<Rightarrow> (string \<times> 'a) list" where
  "insert_item kv [] = [kv]"
| "insert_item kv (x # xs) = (if str_le (fst kv) (fst x) then kv # x # xs else x # insert_item kv xs)"

definition sort_items :: "(string \<times> 'a) list \<Rightarrow> (string \<times> 'a) list" where
  "sort_items xs = foldr insert_item xs []"

fun join :: "string \<Rightarrow> string list \<Rightarrow> string" where
  "join sep [] = []"
| "join sep [x] = x"
| "join sep (x # y # zs) = x @ sep @ join sep (y # zs)"

text \<open>
  \<^verbatim>\<open>repr\<close> of a float, the shortest decimal that reads back as the same double, has no
  counterpart on real numbers: the printer takes it as the parameter \<open>fr\<close>.
\<close>

fun canonical_json :: "(real \<Rightarrow> string) \<Rightarrow> pyval \<Rightarrow> string" where
  "canonical_json fr PNone = ''null''"
| "canonical_json fr (PBool b) = (if b then ''true'' else ''false'')"
| "canonical_json fr (PInt i) = int_repr i"
| "canonical_json fr (PFloat r) = fr r"
| "canonical_json fr (PStr s) = json_string s"
| "canonical_json fr (PList xs) = ''['' @ join '','' (map (canonical_json fr) xs) @ '']''"
| "canonical_json fr (PDict d) =
     ''{'' @ join '','' (map (\<lambda>(k, s). json_string k @ '':'' @ s)
                           (sort_items (map (\<lambda>(k, v). (k, canonical_json fr v)) d))) @ ''}''"

text \<open>\<^verbatim>\<open>repr\<close> on the floats that are whole numbers (below \<open>10 ^ 16\<close> in size).\<close>

definition repr_whole :: "real \<Rightarrow> string" where
  "repr_whole r = int_repr \<lfloor>r\<rfloor> @ ''.0''"

subsection \<open>json.loads\<close>

text \<open>
  A recursive-descent reader of RFC 8259 texts.  A number with a fraction or an exponent
  is read as the real number it denotes.  Outside this reader: the literals \<^verbatim>\<open>NaN\<close> and
  \<^verbatim>\<open>Infinity\<close>, which Python accepts and real numbers do not have, and \<^verbatim>\<open>\u\<close> escapes of
  code points from 256 on.  The reader takes fuel for its nesting; the length of the text
  plus two is more than the calls it can nest.
\<close>

definition json_ws :: "char \<Rightarrow> bool" where
  "json_ws c = ((of_char c :: nat) \<in> {32, 9, 10, 13})"

definition skip_ws :: "string \<Rightarrow> string" where
  "skip_ws s = dropWhile json_ws s"

definition digit_val :: "char \<Rightarrow> nat option" where
  "digit_val c =
     (let n = (of_char c :: nat) in if 48 \<le> n \<and> n \<le> 57 then Some (n - 48) else None)"

definition hex_val :: "char \<Rightarrow> nat option" where
  "hex_val c =
     (let n = (of_char c :: nat) in
      if 48 \<le> n \<and> n \<le> 57 then Some (n - 48)
      else if 97 \<le> n \<and> n \<le> 102 then Some (n - 87)
      else if 65 \<le> n \<and> n \<le> 70 then Some (n - 55)
      else None)"

fun take_digits :: "string \<Rightarrow> nat list \<times> string" where
  "take_digits [] = ([], [])"
| "take_digits (c # cs) =
     (case digit_val c of
        Some d \<Rightarrow> (case take_digits cs of (ds, r) \<Rightarrow> (d # ds, r))
      | None \<Rightarrow> ([], c # cs))"

definition digits_nat :: "nat list \<Rightarrow> nat" where
  "digits_nat ds = foldl (\<lambda>a d. 10 * a + d) 0 ds"

text \<open>The integer part: a single 0, or digits that start with 1 to 9.\<close>

definition take_int_part :: "string \<Rightarrow> nat list \<times> string" where
  "take_int_part s =
     (case s of
        [] \<Rightarrow> ([], [])
      | c # cs \<Rightarrow> if c = CHR ''0'' then ([0], cs) else take_digits (c # cs))"

text \<open>The optional fraction \<^verbatim>\<open>.digits\<close> and the optional exponent \<^verbatim>\<open>e[+-]digits\<close>.\<close>

definition take_frac :: "string \<Rightarrow> nat list \<times> string" where
  "take_frac s =
     (case s of
        [] \<Rightarrow> ([], s)
      | c # cs \<Rightarrow>
          if c = CHR ''.'' then
            (case take_digits cs of (ds, r) \<Rightarrow> if ds = [] then ([], s) else (ds, r))
          else ([], s))"

definition take_exp :: "string \<Rightarrow> int option \<times> string" where
  "take_exp s =
     (case s of
        [] \<Rightarrow> (None, s)
      | c # cs \<Rightarrow>
          if c = CHR ''e'' \<or> c = CHR ''E'' then
            (let (neg, cs') = (case cs of
                                 [] \<Rightarrow> (False, cs)
                               | d # ds \<Rightarrow> if d = CHR ''-'' then (True, ds)
                                           else if d = CHR ''+'' then (False, ds)
                                           else (False, cs))
             in case take_digits cs' of
                  (ds, r) \<Rightarrow>
                    if ds = [] then (None, s)
                    else (Some (if neg then - int (digits_nat ds) else int (digits_nat ds)), r))
          else (None, s))"

definition parse_number :: "string \<Rightarrow> (pyval \<times> string) option" where
  "parse_number s =
     (let (neg, s1) = (case s of
                         [] \<Rightarrow> (False, s)
                       | c # cs \<Rightarrow> if c = CHR ''-'' then (True, cs) else (False, s));
          (ip, s2) = take_int_part s1;
          (fp, s3) = take_frac s2;
          (ex, s4) = take_exp s3
      in if ip = [] then None
         else if fp = [] \<and> ex = None then
           Some (PInt (if neg then - int (digits_nat ip) else int (digits_nat ip)), s4)
         else
           (let m = real (digits_nat ip) + real (digits_nat fp) / 10 ^ length fp;
                e = (case ex of None \<Rightarrow> 0 | Some x \<Rightarrow> x);
                v = (if e \<ge> 0 then m * 10 ^ nat e else m / 10 ^ nat (- e))
            in Some (PFloat (if neg then - v else v), s4)))"

text \<open>The characters of a string after its opening quote; \<open>acc\<close> holds them reversed.\<close>

fun parse_str :: "string \<Rightarrow> string \<Rightarrow> (string \<times> string) option" where
  "parse_str [] acc = None"
| "parse_str (c # cs) acc =
     (if c = CHR 0x22 then Some (rev acc, cs)
      else if c = CHR 0x5C then
        (case cs of
           [] \<Rightarrow> None
         | e # r \<Rightarrow>
             if e = CHR 0x22 then parse_str r (CHR 0x22 # acc)
             else if e = CHR 0x5C then parse_str r (CHR 0x5C # acc)
             else if e = CHR ''/'' then parse_str r (CHR ''/'' # acc)
             else if e = CHR ''b'' then parse_str r (CHR 0x08 # acc)
             else if e = CHR ''f'' then parse_str r (CHR 0x0C # acc)
             else if e = CHR ''n'' then parse_str r (CHR 0x0A # acc)
             else if e = CHR ''r'' then parse_str r (CHR 0x0D # acc)
             else if e = CHR ''t'' then parse_str r (CHR 0x09 # acc)
             else if e = CHR ''u'' then
               (case r of
                  h1 # h2 # h3 # h4 # r' \<Rightarrow>
                    (case (hex_val h1, hex_val h2, hex_val h3, hex_val h4) of
                       (Some a, Some b, Some c', Some d) \<Rightarrow>
                         if a = 0 \<and> b = 0 then parse_str r' (char_of (c' * 16 + d) # acc)
                         else None
                     | _ \<Rightarrow> None)
                | _ \<Rightarrow> None)
             else None)
      else if (of_char c :: nat) < 32 then None
      else parse_str cs (c # acc))"

definition starts_with :: "string \<Rightarrow> string \<Rightarrow> bool" where
  "starts_with p s = (take (length p) s = p)"

fun parse_value :: "nat \<Rightarrow> string \<Rightarrow> (pyval \<times> string) option"
  and parse_elements :: "nat \<Rightarrow> string \<Rightarrow> pyval list \<Rightarrow> (pyval \<times> string) option"
  and parse_members :: "nat \<Rightarrow> string \<Rightarrow> pydict \<Rightarrow> (pyval \<times> string) option" where
  "parse_value 0 s = None"
| "parse_value (Suc n) s =
     (case skip_ws s of
        [] \<Rightarrow> None
      | c # cs \<Rightarrow>
          if c = CHR ''{'' then
            (case skip_ws cs of
               [] \<Rightarrow> None
             | d # r \<Rightarrow> if d = CHR ''}'' then Some (PDict [], r) else parse_members n (d # r) [])
          else if c = CHR ''['' then
            (case skip_ws cs of
               [] \<Rightarrow> None
             | d # r \<Rightarrow> if d = CHR '']'' then Some (PList [], r) else parse_elements n (d # r) [])
          else if c = CHR 0x22 then
            (case parse_str cs [] of None \<Rightarrow> None | Some (str, r) \<Rightarrow> Some (PStr str, r))
          else if starts_with ''null'' (c # cs) then Some (PNone, drop 4 (c # cs))
          else if starts_with ''true'' (c # cs) then Some (PBool True, drop 4 (c # cs))
          else if starts_with ''false'' (c # cs) then Some (PBool False, drop 5 (c # cs))
          else parse_number (c # cs))"
| "parse_elements 0 s acc = None"
| "parse_elements (Suc n) s acc =
     (case parse_value n s of
        None \<Rightarrow> None
      | Some (v, r) \<Rightarrow>
          (case skip_ws r of
             [] \<Rightarrow> None
           | d # r' \<Rightarrow>
               if d = CHR '','' then parse_elements n r' (acc @ [v])
               else if d = CHR '']'' then Some (PList (acc @ [v]), r')
               else None))"
| "parse_members 0 s acc = None"
| "parse_members (Suc n) s acc =
     (case skip_ws s of
        [] \<Rightarrow> None
      | q # cs \<Rightarrow>
          if q \<noteq> CHR 0x22 then None
          else
            (case parse_str cs [] of
               None \<Rightarrow> None
             | Some (k, r) \<Rightarrow>
                 (case skip_ws r of
                    [] \<Rightarrow> None
                  | col # r1 \<Rightarrow>
                      if col \<noteq> CHR '':'' then None
                      else
                        (case parse_value n r1 of
                           None \<Rightarrow> None
                         | Some (v, r2) \<Rightarrow>
                             (case skip_ws r2 of
                                [] \<Rightarrow> None
                              | d # r3 \<Rightarrow>
                                  if d = CHR '','' then parse_members n r3 (dict_set acc k v)
                                  else if d = CHR ''}'' then Some (PDict (dict_set acc k v), r3)
                                  else None)))))"

definition json_loads :: "string \<Rightarrow> pyval option" where
  "json_loads s =
     (case parse_value (Suc (Suc (length s))) s of
        None \<Rightarrow> None
      | Some (v, r) \<Rightarrow> if skip_ws r = [] then Some v else None)"

subsection \<open>The library of the sample runs\<close>

definition python_library :: library where
  "python_library =
     \<lparr> lib_sha256_hex = sha256_hex,
       lib_hmac_sha256_hex = hmac_sha256_hex,
       lib_canonical_json = canonical_json repr_whole,
       lib_json_loads = json_loads \<rparr>"

subsection \<open>Sample logs\<close>

text \<open>
  The SHA-256 digest that \<^verbatim>\<open>append\<close> stores in the sample entry on a fresh memory, and the
  line it writes to the log.
\<close>

definition sample_hash :: string where
  "sample_hash = ''1eb16bd681b1937d9f2e02372c327af90a4201ca6cdd8113a9e8b75f7c189d95''"

definition sample_line :: string where
  "sample_line =
     ''{\"event\":\"RUN_START\",\"hash\":\"1eb16bd681b1937d9f2e02372c327af90a4201ca6cdd8113a9e8b75f7c189d95\",\"payload\":{},\"prev_hash\":\"\",\"run_id\":\"r1\",\"seq\":0,\"signature\":\"\",\"timestamp_utc\":\"t0\"}''"

text \<open>A second entry, and the memory after the sample entry was appended to a fresh one.\<close>

definition closing_entry :: signed_entry where
  "closing_entry = sample_entry \<lparr> event := ''RUN_END'' \<rparr>"

definition one_entry_memory :: signed_memory where
  "one_entry_memory = fst (append python_library fresh_memory sample_entry)"


text \<open>The mapping that \<^verbatim>\<open>json.loads\<close> reads from the sample line.\<close>

definition sample_object :: pydict where
  "sample_object =
     [(''event'', PStr ''RUN_START''), (''hash'', PStr sample_hash), (''payload'', PDict []),
      (''prev_hash'', PStr ''''), (''run_id'', PStr ''r1''), (''seq'', PInt 0),
      (''signature'', PStr ''''), (''timestamp_utc'', PStr ''t0'')]"



section \<open>Properties of the audit gate\<close>

lemmas sample_defs = sample_bundle_def sample_ES_def sample_rest_def blank_facts_bundle_def
  blank_facts_ES_def text_body_bundle_def

lemmas gate_defs = truth_gate_def logic_gate_def risk_gate_def bias_gate_def clarity_gate_def
  truth_gate_body_def logic_gate_body_def risk_gate_body_def bias_gate_body_def clarity_gate_body_def
  truth_required_def logic_required_def risk_required_def bias_required_def clarity_required_def
  truth_facts_def options_count_def risk_stages_def citizen_summary_def has_any_textual_evidence_def
  ds_has_options_def count_missing_required_def textual_def is_nonempty_str_def is_dict_def
  as_list_def strip_def py_isspace_def doc_def dget_def py_or_def score_from_def summary_of_def
  dict_merge_def

subsection \<open>When the gates return\<close>

lemma doc_body: "body_ok a c \<Longrightarrow> doc a c = Inr (body a c)"
  by (auto simp: body_ok_def doc_def body_def py_or_def is_dict_def split: pyval.splits)

lemma doc_Inl: "\<not> body_ok a c \<Longrightarrow> doc a c = Inl AttributeError"
  by (auto simp: body_ok_def doc_def py_or_def is_dict_def split: pyval.splits)

lemma truth_gate_ok:
  "bundle_ok a \<Longrightarrow>
     truth_gate a = Inr (truth_gate_body (body a ''ES'') (body a ''FPF'') (body a ''DS''))"
  by (simp add: bundle_ok_def truth_gate_def doc_body)

lemma logic_gate_ok:
  "bundle_ok a \<Longrightarrow>
     logic_gate a = Inr (logic_gate_body (body a ''WM'') (body a ''DS'') (body a ''FPF''))"
  by (simp add: bundle_ok_def logic_gate_def doc_body)

lemma risk_gate_ok:
  "bundle_ok a \<Longrightarrow> risk_gate a = Inr (risk_gate_body (body a ''DS'') (body a ''AP''))"
  by (simp add: bundle_ok_def risk_gate_def doc_body)

lemma bias_body_False:
  "\<not> length (truth_facts es) < 3 \<Longrightarrow> bias_gate_body sm es b = bias_gate_body sm es False"
  by (simp add: bias_gate_body_def Let_def)

lemma bias_gate_ok:
  assumes "bundle_ok a"
  shows "bias_gate a =
     Inr (bias_gate_body (body a ''SM'') (body a ''ES'') (ds_has_options (body a ''DS'')))"
proof (cases "length (truth_facts (body a ''ES'')) < 3")
  case True
  with assms show ?thesis
    by (simp add: bundle_ok_def bias_gate_def doc_body)
next
  case False
  with assms show ?thesis
    using bias_body_False [OF False, of "body a ''SM''" "ds_has_options (body a ''DS'')"]
    by (simp add: bundle_ok_def bias_gate_def doc_body)
qed

lemma clarity_gate_ok:
  "bundle_ok a \<Longrightarrow> clarity_gate a = Inr (clarity_gate_body a (body a ''IC'') (body a ''AP''))"
  by (simp add: bundle_ok_def clarity_gate_def doc_body)

lemma evaluate_ok:
  assumes "bundle_ok a"
  shows "evaluate strict now a md =
     Inr \<lparr> codex_id = ''CIVIC-OS-TH v1.0'',
           timestamp_utc = now,
           overall_verdict =
             (if list_all (\<lambda>gr. verdict gr = ''PASS'') (gates_of a) then ''PASS'' else ''FAIL''),
           gate_results = gates_of a,
           summary =
             summary_of
               (if list_all (\<lambda>gr. verdict gr = ''PASS'') (gates_of a) then ''PASS'' else ''FAIL'')
               (gates_of a),
           minimum_fixes = take 8 (collect_fixes [] (gates_of a)),
           metadata = dict_merge [(''strict'', PBool strict)] md \<rparr>"
  unfolding evaluate_def
  by (simp only: truth_gate_ok [OF assms] logic_gate_ok [OF assms] risk_gate_ok [OF assms]
        bias_gate_ok [OF assms] clarity_gate_ok [OF assms] sum.case Let_def gates_of_def)

subsection \<open>The verdict of each gate\<close>

lemma count_missing_Nil:
  "count_missing_required xs = [] \<longleftrightarrow> list_all (\<lambda>x. \<not> is_missing (snd x)) xs"
  by (induction xs) (auto simp: count_missing_required_def)

lemma truth_verdict:
  "verdict (truth_gate_body es fpf ds) =
     (if count_missing_required (truth_required es fpf) = [] \<and> has_any_textual_evidence es
      then ''PASS'' else ''FAIL'')"
  by (simp add: truth_gate_body_def Let_def)

lemma logic_verdict:
  "verdict (logic_gate_body wm ds fpf) =
     (if count_missing_required (logic_required wm fpf) = [] \<and> options_count ds \<ge> 2
      then ''PASS'' else ''FAIL'')"
  by (simp add: logic_gate_body_def Let_def)

lemma risk_verdict:
  "verdict (risk_gate_body ds ap) =
     (if count_missing_required (risk_required ds ap) = [] \<and> length (risk_stages ap) > 0
      then ''PASS'' else ''FAIL'')"
  by (simp add: risk_gate_body_def Let_def)

lemma bias_verdict:
  "verdict (bias_gate_body sm es b) =
     (if count_missing_required (bias_required sm) = [] then ''PASS'' else ''FAIL'')"
  by (simp add: bias_gate_body_def Let_def)

lemma clarity_verdict:
  "verdict (clarity_gate_body a ic ap) =
     (if count_missing_required (clarity_required ic) = []
         \<and> is_nonempty_str (citizen_summary a ic ap)
      then ''PASS'' else ''FAIL'')"
  by (simp add: clarity_gate_body_def Let_def)

lemma gates_all_pass:
  "list_all (\<lambda>gr. verdict gr = ''PASS'') (gates_of a) \<longleftrightarrow>
     (list_all (\<lambda>x. \<not> is_missing (snd x)) (required_fields a) \<and> hard_conditions a)"
  by (auto simp: gates_of_def truth_verdict logic_verdict risk_verdict bias_verdict clarity_verdict
        count_missing_Nil required_fields_def hard_conditions_def)

lemma gates_names:
  "map gate (gates_of a) =
     [''Truth Gate'', ''Logic Gate'', ''Risk Gate'', ''Bias Gate'', ''Clarity Gate'']"
  by (simp add: gates_of_def truth_gate_body_def logic_gate_body_def risk_gate_body_def
        bias_gate_body_def clarity_gate_body_def Let_def)

lemma gates_verdicts:
  "list_all (\<lambda>gr. verdict gr = ''PASS'' \<or> verdict gr = ''FAIL'') (gates_of a)"
  by (simp add: gates_of_def truth_verdict logic_verdict risk_verdict bias_verdict clarity_verdict)

subsection \<open>The loop that collects the fixes\<close>

lemma set_dedup_first: "set (dedup_first xs) = set xs"
  by (induction xs rule: dedup_first.induct) auto

lemma distinct_dedup_first: "distinct (dedup_first xs)"
  by (induction xs rule: dedup_first.induct) (auto simp: set_dedup_first)

lemma add_fixes_dedup: "add_fixes acc fs = acc @ dedup_first (filter (\<lambda>f. f \<notin> set acc) fs)"
proof (induction fs arbitrary: acc)
  case Nil
  show ?case by simp
next
  case (Cons f fs)
  show ?case
  proof (cases "f \<in> set acc")
    case True
    then show ?thesis by (simp add: Cons.IH)
  next
    case False
    have "filter (\<lambda>g. g \<notin> set (acc @ [f])) fs
            = filter (\<lambda>y. y \<noteq> f) (filter (\<lambda>g. g \<notin> set acc) fs)"
      by (induction fs) auto
    with False show ?thesis by (simp add: Cons.IH)
  qed
qed

lemma add_fixes_append: "add_fixes acc (fs @ gs) = add_fixes (add_fixes acc fs) gs"
  by (induction fs arbitrary: acc) auto

lemma collect_fixes_add: "collect_fixes acc grs = add_fixes acc (all_fixes_of_failed grs)"
  by (induction grs arbitrary: acc)
     (auto simp: all_fixes_of_failed_def failed_gates_def add_fixes_append)

lemma collect_fixes_dedup: "collect_fixes [] grs = dedup_first (all_fixes_of_failed grs)"
  by (simp add: collect_fixes_add add_fixes_dedup)

lemma evaluate_Inr_fixes:
  assumes "evaluate strict now a md = Inr r"
  shows "minimum_fixes r = take 8 (collect_fixes [] (gate_results r))"
  using assms unfolding evaluate_def
  by (auto simp: Let_def split: sum.splits)

subsection \<open>Claims on the audit gate\<close>

text \<open>
  Claim C3, as the code has it.  For every artifact bundle whose document bodies are
  mappings (or falsy), \<^verbatim>\<open>AuditGate.evaluate\<close> returns a report, and: if any of the fifteen
  required values, as the gates extract them (the first truthy alias, else the last
  alias; a list-valued field wrapped by \<^verbatim>\<open>_as_list\<close>), is \<^verbatim>\<open>None\<close>, an empty or
  whitespace-only string, an empty list or an empty mapping, the overall verdict is FAIL;
  if none is and the four hard conditions hold (textual evidence, at least two decision
  options, non-empty stages, a non-empty citizen summary), it is PASS; and the overall
  verdict is the conjunction of the verdicts of the five gates Truth, Logic, Risk, Bias,
  Clarity, each of which is PASS or FAIL.
\<close>

theorem overall_verdict_of_bundle:
  assumes "bundle_ok a"
  shows "\<exists>r. evaluate strict now a md = Inr r
     \<and> ((\<exists>x \<in> set (required_fields a). is_missing (snd x)) \<longrightarrow> overall_verdict r = ''FAIL'')
     \<and> ((\<forall>x \<in> set (required_fields a). \<not> is_missing (snd x)) \<and> hard_conditions a
           \<longrightarrow> overall_verdict r = ''PASS'')
     \<and> map gate (gate_results r)
          = [''Truth Gate'', ''Logic Gate'', ''Risk Gate'', ''Bias Gate'', ''Clarity Gate'']
     \<and> (\<forall>g \<in> set (gate_results r). verdict g = ''PASS'' \<or> verdict g = ''FAIL'')
     \<and> (overall_verdict r = ''PASS'' \<longleftrightarrow> (\<forall>g \<in> set (gate_results r). verdict g = ''PASS''))
     \<and> (overall_verdict r = ''FAIL'' \<longleftrightarrow> (\<exists>g \<in> set (gate_results r). verdict g = ''FAIL''))"
proof -
  let ?r = "\<lparr> codex_id = ''CIVIC-OS-TH v1.0'',
           timestamp_utc = now,
           overall_verdict =
             (if list_all (\<lambda>gr. verdict gr = ''PASS'') (gates_of a) then ''PASS'' else ''FAIL''),
           gate_results = gates_of a,
           summary =
             summary_of
               (if list_all (\<lambda>gr. verdict gr = ''PASS'') (gates_of a) then ''PASS'' else ''FAIL'')
               (gates_of a),
           minimum_fixes = take 8 (collect_fixes [] (gates_of a)),
           metadata = dict_merge [(''strict'', PBool strict)] md \<rparr>"
  have ev: "evaluate strict now a md = Inr ?r"
    by (rule evaluate_ok [OF assms])
  have ov: "overall_verdict ?r = ''PASS'' \<longleftrightarrow>
              (list_all (\<lambda>x. \<not> is_missing (snd x)) (required_fields a) \<and> hard_conditions a)"
    by (simp add: gates_all_pass)
  have pf: "overall_verdict ?r = ''PASS'' \<or> overall_verdict ?r = ''FAIL''"
    by simp
  have a1: "(\<exists>x \<in> set (required_fields a). is_missing (snd x)) \<longrightarrow> overall_verdict ?r = ''FAIL''"
    using ov pf by (auto simp: list_all_iff)
  have a2: "(\<forall>x \<in> set (required_fields a). \<not> is_missing (snd x)) \<and> hard_conditions a
           \<longrightarrow> overall_verdict ?r = ''PASS''"
    using ov by (auto simp: list_all_iff)
  have a3: "map gate (gate_results ?r)
          = [''Truth Gate'', ''Logic Gate'', ''Risk Gate'', ''Bias Gate'', ''Clarity Gate'']"
    by (simp add: gates_names)
  have a4: "\<forall>g \<in> set (gate_results ?r). verdict g = ''PASS'' \<or> verdict g = ''FAIL''"
    using gates_verdicts [of a] by (simp add: list_all_iff)
  have a5: "overall_verdict ?r = ''PASS'' \<longleftrightarrow> (\<forall>g \<in> set (gate_results ?r). verdict g = ''PASS'')"
    by (simp add: list_all_iff)
  have a6: "overall_verdict ?r = ''FAIL'' \<longleftrightarrow> (\<exists>g \<in> set (gate_results ?r). verdict g = ''FAIL'')"
    using a4 a5 pf by auto
  show ?thesis
    by (rule exI [of _ ?r]) (intro conjI ev a1 a2 a3 a4 a5 a6)
qed

text \<open>
  The theorem at the sample bundle, where every required value is present and every
  hard condition holds, and at the empty bundle, where every required value is missing.
\<close>

theorem overall_verdict_of_bundle_witness:
  "bundle_ok sample_bundle
   \<and> \<not> isl (evaluate True ''2024-01-01'' sample_bundle [])
   \<and> overall_verdict (projr (evaluate True ''2024-01-01'' sample_bundle [])) = ''PASS''
   \<and> bundle_ok []
   \<and> \<not> isl (evaluate True ''2024-01-01'' [] [])
   \<and> overall_verdict (projr (evaluate True ''2024-01-01'' [] [])) = ''FAIL''"
proof -
  have b1: "bundle_ok sample_bundle"
    by (simp add: bundle_ok_def body_ok_def sample_defs dget_def is_dict_def)
  have r1: "\<forall>x \<in> set (required_fields sample_bundle). \<not> is_missing (snd x)"
    by (simp add: required_fields_def body_def gate_defs sample_defs)
  have h1: "hard_conditions sample_bundle"
    by (simp add: hard_conditions_def body_def gate_defs sample_defs)
  have b2: "bundle_ok []"
    by (simp add: bundle_ok_def body_ok_def dget_def is_dict_def)
  have r2: "\<exists>x \<in> set (required_fields []). is_missing (snd x)"
    by (simp add: required_fields_def body_def gate_defs)
  from overall_verdict_of_bundle [OF b1, of True "''2024-01-01''" "[]"] r1 h1
  have p1: "\<not> isl (evaluate True ''2024-01-01'' sample_bundle [])
            \<and> overall_verdict (projr (evaluate True ''2024-01-01'' sample_bundle [])) = ''PASS''"
    by auto
  from overall_verdict_of_bundle [OF b2, of True "''2024-01-01''" "[]"] r2
  have p2: "\<not> isl (evaluate True ''2024-01-01'' [] [])
            \<and> overall_verdict (projr (evaluate True ''2024-01-01'' [] [])) = ''FAIL''"
    by auto
  from b1 p1 b2 p2 show ?thesis by blast
qed

text \<open>
  Claim C3 as stated fails: ES.Facts is a required field of the Truth gate, here it is a
  whitespace-only string, which \<^verbatim>\<open>_count_missing_required\<close> counts as missing, and the
  overall verdict is PASS.  The gate wraps the string into a one-element list before it
  looks for missing values.
\<close>

theorem blank_facts_pass_counterexample:
  "dget (body blank_facts_bundle ''ES'') ''Facts'' = PStr ''   ''
   \<and> is_missing (dget (body blank_facts_bundle ''ES'') ''Facts'')
   \<and> \<not> isl (evaluate True ''2024-01-01'' blank_facts_bundle [])
   \<and> overall_verdict (projr (evaluate True ''2024-01-01'' blank_facts_bundle [])) = ''PASS''"
  by (simp add: evaluate_def body_def gate_defs sample_defs Let_def)

text \<open>
  Claim C6, as the code has it.  In every report that \<^verbatim>\<open>AuditGate.evaluate\<close> returns,
  \<^verbatim>\<open>minimum_fixes\<close> is the list of all fix strings of the failed gates, in gate order and in
  each gate's order, deduplicated by exact match (the first occurrence stays) and cut to
  its first eight entries; so it never has more than eight entries and never holds a
  string twice.
\<close>

theorem minimum_fixes_of_report:
  assumes "evaluate strict now a md = Inr r"
  shows "minimum_fixes r = take 8 (dedup_first (all_fixes_of_failed (gate_results r)))
         \<and> length (minimum_fixes r) \<le> 8
         \<and> distinct (minimum_fixes r)"
proof -
  have m: "minimum_fixes r = take 8 (dedup_first (all_fixes_of_failed (gate_results r)))"
    using evaluate_Inr_fixes [OF assms] by (simp add: collect_fixes_dedup)
  moreover have "length (minimum_fixes r) \<le> 8"
    using m by simp
  moreover have "distinct (minimum_fixes r)"
    using m by (simp add: distinct_dedup_first)
  ultimately show ?thesis by blast
qed

text \<open>The theorem at the report on the empty bundle.\<close>

theorem minimum_fixes_of_report_witness:
  "evaluate True ''2024-01-01'' [] [] = Inr (projr (evaluate True ''2024-01-01'' [] []))
   \<and> minimum_fixes (projr (evaluate True ''2024-01-01'' [] []))
       = take 8 (dedup_first (all_fixes_of_failed
                   (gate_results (projr (evaluate True ''2024-01-01'' [] [])))))
   \<and> length (minimum_fixes (projr (evaluate True ''2024-01-01'' [] []))) \<le> 8
   \<and> distinct (minimum_fixes (projr (evaluate True ''2024-01-01'' [] [])))"
proof -
  have "bundle_ok []"
    by (simp add: bundle_ok_def body_ok_def dget_def is_dict_def)
  then have e: "evaluate True ''2024-01-01'' [] [] = Inr (projr (evaluate True ''2024-01-01'' [] []))"
    by (simp add: evaluate_ok)
  from e minimum_fixes_of_report [OF e] show ?thesis by blast
qed

text \<open>
  Claim C6 as stated fails on the empty bundle: all five gates fail, the first fix of
  each gate gives five strings, and \<^verbatim>\<open>minimum_fixes\<close> holds eight, the second of which is
  the Truth gate's second fix; the Bias and the Clarity gate contribute nothing.
\<close>

theorem minimum_fixes_counterexample:
  "\<not> isl (evaluate True ''2024-01-01'' [] [])
   \<and> minimum_fixes (projr (evaluate True ''2024-01-01'' [] []))
       = [Fix_truth_missing, Fix_truth_evidence, Fix_logic_missing, Fix_logic_options,
          Fix_logic_linear, Fix_risk_missing, Fix_risk_stages, Fix_risk_instrumentation]
   \<and> spec_minimum_fixes (gate_results (projr (evaluate True ''2024-01-01'' [] [])))
       = [Fix_truth_missing, Fix_logic_missing, Fix_risk_missing, Fix_bias_missing,
          Fix_clarity_missing]"
  by (simp add: evaluate_def gate_defs spec_minimum_fixes_def failed_gates_def Let_def)

text \<open>
  Claim C7 says that \<^verbatim>\<open>AuditGate.evaluate\<close> never raises, also for a document whose body
  is not a mapping.  The code raises AttributeError exactly on the bundles with a
  document body among the seven that is truthy and not a mapping, as on the bundle whose
  ES body is a sentence: \<^verbatim>\<open>artifacts.get("ES") or {}\<close> keeps the string and
  \<^verbatim>\<open>es.get("Facts")\<close> fails on it.
\<close>

theorem evaluate_raises_on_non_mapping_body:
  "(evaluate strict now a md = Inl AttributeError \<longleftrightarrow> \<not> bundle_ok a)
   \<and> dget text_body_bundle ''ES'' = PStr ''see the attached report''
   \<and> evaluate strict now text_body_bundle md = Inl AttributeError"
proof -
  have 1: "evaluate strict now a md = Inl AttributeError" if "\<not> bundle_ok a"
    using that doc_Inl [of a] doc_body [of a]
    by (cases "body_ok a ''ES''"; cases "body_ok a ''FPF''"; cases "body_ok a ''DS''";
        cases "body_ok a ''WM''"; cases "body_ok a ''AP''"; cases "body_ok a ''SM''";
        cases "body_ok a ''IC''")
       (simp_all add: bundle_ok_def evaluate_def truth_gate_def logic_gate_def risk_gate_def
          bias_gate_def clarity_gate_def)
  have 2: "evaluate strict now a md \<noteq> Inl AttributeError" if "bundle_ok a"
    using that by (simp add: evaluate_ok)
  have 3: "evaluate strict now text_body_bundle md = Inl AttributeError"
    by (simp add: evaluate_def truth_gate_def doc_def dget_def py_or_def text_body_bundle_def)
  have 4: "dget text_body_bundle ''ES'' = PStr ''see the attached report''"
    by (simp add: dget_def text_body_bundle_def)
  from 1 2 3 4 show ?thesis by blast
qed

text \<open>The theorem at the bundle whose ES body is a sentence.\<close>

theorem evaluate_raises_on_non_mapping_body_witness:
  "\<not> bundle_ok text_body_bundle
   \<and> evaluate True ''2024-01-01'' text_body_bundle [] = Inl AttributeError"
  using evaluate_raises_on_non_mapping_body [of True "''2024-01-01''" text_body_bundle "[]"]
  by blast

section \<open>Properties of the falsifier engine and of the metric deltas\<close>



subsection \<open>The verdict\<close>




subsection \<open>The hits of each rule\<close>
















subsection \<open>Percentage change\<close>

lemma falsifier_pct_change_cases:
  "falsifier_pct_change c b =
     (case c of None \<Rightarrow> None
      | Some x \<Rightarrow> (case b of None \<Rightarrow> None
                  | Some y \<Rightarrow> if y = 0 then None else Some ((x - y) / \<bar>y\<bar>)))"
  by (cases c; cases b) simp_all




lemma ch_zero_base: "base_num pf base key = Some 0 \<Longrightarrow> ch pf cur base key = None"
  by (simp add: ch_def falsifier_pct_change_cases split: option.splits)

lemma ch_defined:
  "falsifier_num pf (dget cur key) = Some c \<Longrightarrow> base_num pf base key = Some b \<Longrightarrow> b \<noteq> 0 \<Longrightarrow>
     ch pf cur base key = Some ((c - b) / \<bar>b\<bar>)"
  by (simp add: ch_def)

subsection \<open>Metrics.normalize and Metrics.compute\_deltas\<close>

lemma map_of_normalize:
  "map_of (normalize pf rm d) k =
     map_option (\<lambda>v. if k \<in> set rm \<or> endswith k ''_index'' \<or> endswith k ''_rate''
                          \<or> endswith k ''_coverage''
                       then (case metrics_num pf v of Some n \<Rightarrow> PFloat n | None \<Rightarrow> v) else v)
                (map_of d k)"
  by (induction d) (auto simp: normalize_def split: option.splits)

lemma metrics_num_normalize:
  "metrics_num pf (dget (normalize pf rm d) k) = metrics_num pf (dget d k)"
  by (auto simp: dget_def map_of_normalize split: option.splits)

lemma keys_normalize: "map fst (normalize pf rm d) = map fst d"
  by (induction d) (auto simp: normalize_def split: option.splits)

lemma keys_normalize_set: "fst ` set (normalize pf rm d) = fst ` set d"
  using keys_normalize [of pf rm d] by (metis set_map)

lemma normalize_Nil: "normalize pf rm d = [] \<longleftrightarrow> d = []"
  by (simp add: normalize_def)

lemma pct_compute_deltas:
  "pct (compute_deltas pf rm cur base) k =
     (if k \<in> set (map fst cur) \<or> (base_given base \<and> k \<in> set (map fst (the base)))
      then Some (metrics_pct_change (metrics_num pf (dget cur k))
                   (if base_given base then metrics_num pf (dget (the base) k) else None))
      else None)"
  by (cases base)
     (simp_all add: compute_deltas_def Let_def keys_normalize_set metrics_num_normalize
        base_given_def normalize_Nil)

subsection \<open>Claims on the falsifier engine and on the metric deltas\<close>






text \<open>
  Claim C10, as the code has it.  For every boolean, the coercion of the metrics module
  returns \<^verbatim>\<open>None\<close> and the engine's returns 1.0 for \<^verbatim>\<open>True\<close> and 0.0 for \<^verbatim>\<open>False\<close>.  For a
  boolean-valued metric whose baseline is \<^verbatim>\<open>True\<close> the two computations disagree: the
  engine's change is defined (the current value minus one) and its rule is evaluated,
  while the metric-delta calculator reports \<^verbatim>\<open>None\<close>.  When the baseline is \<^verbatim>\<open>False\<close>
  both report the change as undefined, the engine because its baseline is 0.
\<close>

theorem boolean_metric_coercion:
  "metrics_num pf (PBool v) = None
   \<and> falsifier_num pf (PBool True) = Some 1
   \<and> falsifier_num pf (PBool False) = Some 0
   \<and> (map_of cur key = Some (PBool v) \<and> map_of bd key = Some (PBool True) \<longrightarrow>
        ch pf cur (Some bd) key = Some ((if v then 1 else 0) - 1)
        \<and> pct (compute_deltas pf rm cur (Some bd)) key = Some None)
   \<and> (map_of cur key = Some (PBool v) \<and> map_of bd key = Some (PBool False) \<longrightarrow>
        ch pf cur (Some bd) key = None
        \<and> pct (compute_deltas pf rm cur (Some bd)) key = Some None)"
proof -
  have k: "key \<in> fst ` set cur" if "map_of cur key = Some (PBool v)"
    using that by (metis map_of_eq_None_iff option.distinct(1))
  have ne: "bd \<noteq> []" if "map_of bd key = Some x" for x
    using that by auto
  have 1: "ch pf cur (Some bd) key = Some ((if v then 1 else 0) - 1)
        \<and> pct (compute_deltas pf rm cur (Some bd)) key = Some None"
    if "map_of cur key = Some (PBool v)" "map_of bd key = Some (PBool True)"
    using that k ne [OF that(2)]
    by (simp add: ch_def base_num_def dget_def pct_compute_deltas)
  have 2: "ch pf cur (Some bd) key = None
        \<and> pct (compute_deltas pf rm cur (Some bd)) key = Some None"
    if "map_of cur key = Some (PBool v)" "map_of bd key = Some (PBool False)"
    using that k ne [OF that(2)]
    by (simp add: ch_def base_num_def dget_def pct_compute_deltas)
  from 1 2 show ?thesis by simp
qed

text \<open>The theorem at a flag that is set now and was set before.\<close>

theorem boolean_metric_coercion_witness:
  "map_of flag_current ''citizen_burden_index'' = Some (PBool True)
   \<and> map_of flag_baseline_set ''citizen_burden_index'' = Some (PBool True)
   \<and> ch refuse_str flag_current (Some flag_baseline_set) ''citizen_burden_index'' = Some 0
   \<and> pct (compute_deltas refuse_str DEFAULT_REQUIRED_METRICS flag_current (Some flag_baseline_set))
        ''citizen_burden_index'' = Some None"
proof -
  have c: "map_of flag_current ''citizen_burden_index'' = Some (PBool True)"
    by (simp add: flag_current_def)
  have b: "map_of flag_baseline_set ''citizen_burden_index'' = Some (PBool True)"
    by (simp add: flag_baseline_set_def)
  from boolean_metric_coercion
         [where pf = refuse_str and v = True and cur = flag_current and bd = flag_baseline_set
            and key = "''citizen_burden_index''" and rm = DEFAULT_REQUIRED_METRICS] c b
  show ?thesis by simp
qed

text \<open>
  Claim C10 as stated fails for a boolean metric whose baseline is \<^verbatim>\<open>False\<close>: the engine
  coerces the baseline to 0.0, its percentage change is \<^verbatim>\<open>None\<close> and its rule is skipped,
  so the two components agree that the change is undefined.
\<close>

theorem boolean_baseline_unset_counterexample:
  "dget flag_current ''citizen_burden_index'' = PBool True
   \<and> dget flag_baseline_unset ''citizen_burden_index'' = PBool False
   \<and> ch refuse_str flag_current (Some flag_baseline_unset) ''citizen_burden_index'' = None
   \<and> pct (compute_deltas refuse_str DEFAULT_REQUIRED_METRICS flag_current
             (Some flag_baseline_unset)) ''citizen_burden_index'' = Some None"
  by (simp add: ch_def base_num_def base_given_def dget_def pct_compute_deltas
        flag_current_def flag_baseline_unset_def)

section \<open>Properties of the signed memory\<close>

subsection \<open>verify\_chain, line by line\<close>





lemma verify_line_not_object:
  "lib_json_loads lib l = Some v \<Longrightarrow> \<not> is_dict v \<Longrightarrow> verify_line lib key st l = Inl AttributeError"
  by (auto simp: verify_line_def is_dict_def split: pyval.splits)




lemma verify_chain_keys:
  assumes "verify_chain lib mem = Inr r" and "log_file mem = Some lines"
  shows "map fst r = report_keys \<and> length (notes_of r) \<le> 20"
  using assms
  by (auto simp: verify_chain_def report_keys_def notes_of_def split: sum.splits)


lemma to_dict_signature:
  "dict_set (to_dict e) ''signature'' (PStr s) = to_dict (e \<lparr> signature := s \<rparr>)"
  by (simp add: to_dict_def)

lemma append_entry:
  "snd (append lib mem e) =
     e \<lparr> seq := mem_seq mem, prev_hash := mem_prev_hash mem,
         hash := lib_sha256_hex lib (lib_canonical_json lib
                   (PDict (to_dict (e \<lparr> seq := mem_seq mem, prev_hash := mem_prev_hash mem,
                                        signature := '''' \<rparr>)))),
         signature := (case secret mem of None \<Rightarrow> ''''
                       | Some k \<Rightarrow> lib_hmac_sha256_hex lib k
                           (lib_sha256_hex lib (lib_canonical_json lib
                              (PDict (to_dict (e \<lparr> seq := mem_seq mem, prev_hash := mem_prev_hash mem,
                                        signature := '''' \<rparr>)))))) \<rparr>"
  by (cases "secret mem")
     (simp_all add: append_def compute_hash_def compute_signature_def to_dict_signature Let_def)

lemma append_memory:
  "fst (append lib mem e) =
     mem \<lparr> log_file := write_line (log_file mem)
                          (lib_canonical_json lib (PDict (to_dict (snd (append lib mem e))))),
           mem_prev_hash := hash (snd (append lib mem e)),
           mem_seq := mem_seq mem + 1 \<rparr>"
  by (simp add: append_def Let_def)


lemma append_secret: "secret (fst (append lib mem e)) = secret mem"
  by (simp add: append_def Let_def)

lemma append_all_Cons:
  "append_all lib mem (e # es) =
     (fst (append_all lib (fst (append lib mem e)) es),
      snd (append lib mem e) # snd (append_all lib (fst (append lib mem e)) es))"
  by (simp add: Let_def split: prod.splits)

lemma append_all_length: "length (snd (append_all lib mem es)) = length es"
  by (induction es arbitrary: mem) (simp_all add: append_all_Cons del: append_all.simps(2))

text \<open>What a run of appends leaves behind, entry by entry.\<close>

lemma append_all_nth:
  assumes "i < length es"
  shows "snd (append_all lib mem es) ! i =
           snd (append lib
                  (mem \<lparr> mem_seq := mem_seq mem + int i,
                         mem_prev_hash := (if i = 0 then mem_prev_hash mem
                                           else hash (snd (append_all lib mem es) ! (i - 1))),
                         log_file := log_file (fst (append_all lib mem (take i es))) \<rparr>)
                  (es ! i))"
  using assms
proof (induction es arbitrary: mem i)
  case Nil
  then show ?case by simp
next
  case (Cons e es)
  show ?case
  proof (cases i)
    case 0
    then show ?thesis
      by (simp add: append_all_Cons del: append_all.simps(2))
  next
    case (Suc j)
    with Cons.prems have j: "j < length es" by simp
    let ?m1 = "fst (append lib mem e)"
    have m1: "mem_seq ?m1 = mem_seq mem + 1" "mem_prev_hash ?m1 = hash (snd (append lib mem e))"
      by (simp_all add: append_def Let_def)
    have st: "?m1 \<lparr> mem_seq := mem_seq ?m1 + int j,
                    mem_prev_hash := (if j = 0 then mem_prev_hash ?m1
                                      else hash (snd (append_all lib ?m1 es) ! (j - 1))),
                    log_file := log_file (fst (append_all lib ?m1 (take j es))) \<rparr>
            = mem \<lparr> mem_seq := mem_seq mem + int (Suc j),
                    mem_prev_hash := hash (snd (append_all lib mem (e # es)) ! j),
                    log_file := log_file (fst (append_all lib mem (take (Suc j) (e # es)))) \<rparr>"
      by (cases j) (simp_all add: append_all_Cons append_def Let_def del: append_all.simps(2))
    show ?thesis
      using Cons.IH [OF j, of ?m1] st Suc
      by (simp add: append_all_Cons del: append_all.simps(2))
  qed
qed


lemma append_all_fields:
  assumes "i < length es"
  shows "seq (snd (append_all lib mem es) ! i) = mem_seq mem + int i"
    and "prev_hash (snd (append_all lib mem es) ! i) =
           (if i = 0 then mem_prev_hash mem else hash (snd (append_all lib mem es) ! (i - 1)))"
    and "hash (snd (append_all lib mem es) ! i) =
           lib_sha256_hex lib (lib_canonical_json lib
             (PDict (to_dict ((snd (append_all lib mem es) ! i)
                                \<lparr> hash := hash (es ! i), signature := '''' \<rparr>))))"
    and "signature (snd (append_all lib mem es) ! i) =
           (case secret mem of
              None \<Rightarrow> ''''
            | Some k \<Rightarrow> lib_hmac_sha256_hex lib k (hash (snd (append_all lib mem es) ! i)))"
    and "run_id (snd (append_all lib mem es) ! i) = run_id (es ! i)"
    and "event (snd (append_all lib mem es) ! i) = event (es ! i)"
    and "payload (snd (append_all lib mem es) ! i) = payload (es ! i)"
    and "entry_timestamp_utc (snd (append_all lib mem es) ! i) = entry_timestamp_utc (es ! i)"
proof -
  define m where
    "m = mem \<lparr> mem_seq := mem_seq mem + int i,
               mem_prev_hash := (if i = 0 then mem_prev_hash mem
                                 else hash (snd (append_all lib mem es) ! (i - 1))),
               log_file := log_file (fst (append_all lib mem (take i es))) \<rparr>"
  have eq: "snd (append_all lib mem es) ! i = snd (append lib m (es ! i))"
    unfolding m_def by (rule append_all_nth [OF assms])
  have m: "mem_seq m = mem_seq mem + int i"
    "mem_prev_hash m = (if i = 0 then mem_prev_hash mem
                        else hash (snd (append_all lib mem es) ! (i - 1)))"
    "secret m = secret mem"
    by (simp_all add: m_def)
  show "seq (snd (append_all lib mem es) ! i) = mem_seq mem + int i"
    unfolding eq by (simp add: append_entry m)
  show "prev_hash (snd (append_all lib mem es) ! i) =
           (if i = 0 then mem_prev_hash mem else hash (snd (append_all lib mem es) ! (i - 1)))"
    unfolding eq by (simp add: append_entry m)
  show "hash (snd (append_all lib mem es) ! i) =
           lib_sha256_hex lib (lib_canonical_json lib
             (PDict (to_dict ((snd (append_all lib mem es) ! i)
                                \<lparr> hash := hash (es ! i), signature := '''' \<rparr>))))"
    unfolding eq by (simp add: append_entry)
  show "signature (snd (append_all lib mem es) ! i) =
           (case secret mem of
              None \<Rightarrow> ''''
            | Some k \<Rightarrow> lib_hmac_sha256_hex lib k (hash (snd (append_all lib mem es) ! i)))"
    unfolding eq by (cases "secret mem") (simp_all add: append_entry m(3))
  show "run_id (snd (append_all lib mem es) ! i) = run_id (es ! i)"
    unfolding eq by (simp add: append_entry)
  show "event (snd (append_all lib mem es) ! i) = event (es ! i)"
    unfolding eq by (simp add: append_entry)
  show "payload (snd (append_all lib mem es) ! i) = payload (es ! i)"
    unfolding eq by (simp add: append_entry)
  show "entry_timestamp_utc (snd (append_all lib mem es) ! i) = entry_timestamp_utc (es ! i)"
    unfolding eq by (simp add: append_entry)
qed

text \<open>The log after a run of appends: the lines it had, then one line for each entry.\<close>

lemma append_log:
  "log_file (fst (append lib mem e)) =
     Some ((case log_file mem of None \<Rightarrow> [] | Some ls \<Rightarrow> ls)
           @ [lib_canonical_json lib (PDict (to_dict (snd (append lib mem e))))])"
  by (cases "log_file mem") (simp_all add: append_memory write_line_def)

lemma append_all_log:
  "log_file (fst (append_all lib mem es)) =
     (if es = [] then log_file mem
      else Some ((case log_file mem of None \<Rightarrow> [] | Some ls \<Rightarrow> ls)
                 @ map (\<lambda>e. lib_canonical_json lib (PDict (to_dict e)))
                       (snd (append_all lib mem es))))"
proof (induction es arbitrary: mem)
  case Nil
  show ?case by simp
next
  case (Cons e es)
  let ?m1 = "fst (append lib mem e)"
  note l1 = append_log [of lib mem e]
  show ?case
  proof (cases es)
    case Nil
    then show ?thesis
      using l1 by (simp add: append_all_Cons del: append_all.simps(2))
  next
    case (Cons a list)
    then show ?thesis
      using Cons.IH [of ?m1] l1 by (simp add: append_all_Cons del: append_all.simps(2))
  qed
qed

lemma init_fresh: "init_memory lib to_int to_str '''' None = fresh_memory"
  by (simp add: init_memory_def load_tail_def fresh_memory_def)

subsection \<open>The library on the sample runs\<close>

lemma zeros_numeral: "zeros (numeral k) = 0 # zeros (pred_numeral k)"
  by (simp add: numeral_eq_Suc)

lemmas sha_defs = sha256_hex_def hexdigest_def hex_byte_def hex_digit_def sha256_digest_def
  bytes_of_word_def utf8_def sha256_def pad_def len_bytes_def zeros_numeral compress_def K256_def
  H256_def add32_def shr_def not32_def bsig0_def bsig1_def ssig0_def ssig1_def Ch_def Maj_def
  rotr_def Let_def

text \<open>The digest of the test vector of FIPS 180-4.\<close>

lemma sha256_abc:
  "sha256_hex ''abc'' = ''ba7816bf8f01cfea414140de5dae2223b00361a396177a9cb410ff61f20015ad''"
  by (simp add: sha_defs)


lemmas json_defs = to_dict_def json_string_def escape_char_def hex_byte_def hex_digit_def
  int_repr_def dec.simps sort_items_def

lemmas loads_defs = json_loads_def skip_ws_def json_ws_def parse_number_def take_int_part_def
  take_frac_def take_exp_def digit_val_def hex_val_def digits_nat_def starts_with_def

lemma sha256_entry_before_hash: "sha256_hex ''{\"event\":\"RUN_START\",\"hash\":\"\",\"payload\":{},\"prev_hash\":\"\",\"run_id\":\"r1\",\"seq\":0,\"signature\":\"\",\"timestamp_utc\":\"t0\"}''
   = sample_hash"
  by (simp add: sha_defs sample_hash_def)

lemma sha256_sample_line: "sha256_hex sample_line
   = ''f5953f409f38a8808a10d67b5eebe7191f4b4be24306c31e1c0408f0cc585543''"
  by (simp add: sha_defs sample_line_def)


lemma sample_line_json:
  "canonical_json repr_whole (PDict (to_dict (sample_entry \<lparr> hash := sample_hash \<rparr>))) = sample_line"
  by (simp add: sample_entry_def sample_hash_def sample_line_def json_defs)

lemma python_library_simps:
  "lib_sha256_hex python_library = sha256_hex"
  "lib_hmac_sha256_hex python_library = hmac_sha256_hex"
  "lib_canonical_json python_library = canonical_json repr_whole"
  "lib_json_loads python_library = json_loads"
  by (simp_all add: python_library_def)

lemma fresh_memory_simps:
  "secret fresh_memory = None" "mem_seq fresh_memory = 0"
  "mem_prev_hash fresh_memory = ''''" "log_file fresh_memory = None"
  by (simp_all add: fresh_memory_def)

lemma append_sample_entry:
  "snd (append python_library fresh_memory sample_entry) = sample_entry \<lparr> hash := sample_hash \<rparr>"
  using sha256_entry_before_hash
  by (simp add: append_entry python_library_simps fresh_memory_simps sample_entry_def json_defs)

lemma append_sample_memory:
  "fst (append python_library fresh_memory sample_entry) =
     \<lparr> secret = None, mem_seq = 1, mem_prev_hash = sample_hash, log_file = Some [sample_line] \<rparr>"
proof -
  have "fst (append python_library fresh_memory sample_entry) =
          fresh_memory \<lparr> log_file := Some [sample_line], mem_prev_hash := sample_hash,
                         mem_seq := 1 \<rparr>"
    by (simp add: append_memory append_sample_entry python_library_simps sample_line_json
          write_line_def fresh_memory_simps del: canonical_json.simps)
  then show ?thesis
    by (simp add: fresh_memory_def)
qed

lemma sample_line_loads: "json_loads sample_line = Some (PDict sample_object)"
  by (simp add: sample_line_def sample_object_def sample_hash_def loads_defs)

lemma sample_object_json:
  "canonical_json repr_whole (PDict (dict_set sample_object ''signature'' (PStr ''''))) = sample_line"
  by (simp add: sample_object_def sample_hash_def sample_line_def json_defs)

lemma verify_sample_line:
  "verify_line python_library None
     \<lparr> checked = 0, vs_prev_hash = PStr '''', bad = 0, vs_notes = [] \<rparr> sample_line
   = Inr \<lparr> checked = 1, vs_prev_hash = PStr sample_hash, bad = 1,
           vs_notes = [Hash_mismatch (PInt 0)] \<rparr>"
proof -
  have g: "dget_default sample_object ''prev_hash'' (PStr '''') = PStr ''''"
    "dget sample_object ''hash'' = PStr sample_hash"
    "dget_default sample_object ''hash'' (PStr '''') = PStr sample_hash"
    "dget sample_object ''seq'' = PInt 0"
    by (simp_all add: sample_object_def dget_def dget_default_def)
  have ne: "''f5953f409f38a8808a10d67b5eebe7191f4b4be24306c31e1c0408f0cc585543'' \<noteq> sample_hash"
    by (simp add: sample_hash_def)
  show ?thesis
    unfolding verify_line_def
    by (simp add: python_library_simps sample_line_loads sample_object_json sha256_sample_line g ne Let_def
          del: canonical_json.simps dict_set.simps)
qed

lemma verify_sample:
  "verify_chain python_library one_entry_memory =
     Inr [(''ok'', RBool False), (''checked'', RInt 1), (''bad'', RInt 1),
          (''notes'', RNotes [Hash_mismatch (PInt 0)]), (''signature_enabled'', RBool False)]"
proof -
  have nb: "nonblank sample_line"
    by (simp add: nonblank_def strip_def sample_line_def py_isspace_def)
  show ?thesis
    by (simp add: one_entry_memory_def append_sample_memory verify_chain_def nb verify_sample_line)
qed





lemma sample_entry_signature:
  "sample_entry \<lparr> hash := h, signature := '''' \<rparr> = sample_entry \<lparr> hash := h \<rparr>"
  by (simp add: sample_entry_def)

lemma sample_line_nonblank: "nonblank sample_line"
  by (simp add: nonblank_def strip_def sample_line_def py_isspace_def)






subsection \<open>Claims on the signed memory\<close>

text \<open>
  Claim C1, as the code has it.  \<^verbatim>\<open>append\<close> computes the hash of an entry over its
  mapping with the field \<^verbatim>\<open>hash\<close> still empty; \<^verbatim>\<open>verify_chain\<close> recomputes it over the
  persisted mapping, which holds the stored hash.  So on the log that one \<^verbatim>\<open>append\<close> of the
  sample entry to a fresh memory has written, with no tampering and with the SHA-256 and
  JSON functions of the library, \<^verbatim>\<open>verify_chain\<close> reports \<^verbatim>\<open>ok\<close> false, \<^verbatim>\<open>checked\<close> 1 and
  \<^verbatim>\<open>bad\<close> 1, with the note of a hash mismatch at seq 0.
\<close>

theorem verify_chain_rejects_untampered_log:
  "verify_chain python_library (fst (append python_library fresh_memory sample_entry)) =
     Inr [(''ok'', RBool False), (''checked'', RInt 1), (''bad'', RInt 1),
          (''notes'', RNotes [Hash_mismatch (PInt 0)]), (''signature_enabled'', RBool False)]"
  using verify_sample by (simp add: one_entry_memory_def)

text \<open>The log verified there is the one line that \<^verbatim>\<open>append\<close> wrote, and \<^verbatim>\<open>ok\<close> is false.\<close>

theorem verify_chain_rejects_untampered_log_witness:
  "log_file (fst (append python_library fresh_memory sample_entry)) = Some [sample_line]
   \<and> map_of (projr (verify_chain python_library
                      (fst (append python_library fresh_memory sample_entry)))) ''ok''
     = Some (RBool False)"
  using verify_chain_rejects_untampered_log by (simp add: append_sample_memory)


text \<open>
  Claim C2, as the code has it.  For the entries that a run of calls of \<^verbatim>\<open>append\<close> returns
  and writes, one line each, behind the lines that the log had: the sequence numbers count
  on from the memory's, the \<^verbatim>\<open>prev_hash\<close> of every entry but the first is the hash of the
  entry before it and that of the first is the memory's (empty for a memory opened on no
  log), the signature is the HMAC of the hash under the secret, or empty when there is no
  secret, and the hash is the SHA-256 digest of the canonical JSON of the entry with its
  signature cleared and with its field \<^verbatim>\<open>hash\<close> as it was when \<^verbatim>\<open>append\<close> was called, not with
  the hash that is stored.
\<close>

theorem appended_entries_invariant:
  assumes "i < length es"
  shows "length (snd (append_all lib mem es)) = length es
    \<and> seq (snd (append_all lib mem es) ! i) = mem_seq mem + int i
    \<and> prev_hash (snd (append_all lib mem es) ! i) =
        (if i = 0 then mem_prev_hash mem else hash (snd (append_all lib mem es) ! (i - 1)))
    \<and> hash (snd (append_all lib mem es) ! i) =
        lib_sha256_hex lib (lib_canonical_json lib
          (PDict (to_dict ((snd (append_all lib mem es) ! i)
                             \<lparr> hash := hash (es ! i), signature := '''' \<rparr>))))
    \<and> signature (snd (append_all lib mem es) ! i) =
        (case secret mem of
           None \<Rightarrow> ''''
         | Some k \<Rightarrow> lib_hmac_sha256_hex lib k (hash (snd (append_all lib mem es) ! i)))
    \<and> log_file (fst (append_all lib mem es)) =
        Some ((case log_file mem of None \<Rightarrow> [] | Some ls \<Rightarrow> ls)
              @ map (\<lambda>e. lib_canonical_json lib (PDict (to_dict e)))
                    (snd (append_all lib mem es)))
    \<and> mem_prev_hash (init_memory lib to_int to_str env_secret None) = ''''"
proof -
  from assms have ne: "es \<noteq> []" by auto
  have i: "mem_prev_hash (init_memory lib to_int to_str env_secret None) = ''''"
    by (simp add: init_memory_def load_tail_def)
  show ?thesis
    by (intro conjI append_all_length append_all_fields(1-4) [OF assms] i)
       (simp add: append_all_log ne)
qed

text \<open>
  The theorem at two entries appended to a fresh memory under the library: the second
  entry has sequence number 1, the digest of the first as its \<^verbatim>\<open>prev_hash\<close>, and no
  signature.
\<close>

theorem appended_entries_invariant_witness:
  "1 < length [sample_entry, closing_entry]
   \<and> length (snd (append_all python_library fresh_memory [sample_entry, closing_entry])) = 2
   \<and> seq (snd (append_all python_library fresh_memory [sample_entry, closing_entry]) ! 1) = 1
   \<and> prev_hash (snd (append_all python_library fresh_memory [sample_entry, closing_entry]) ! 1)
       = sample_hash
   \<and> signature (snd (append_all python_library fresh_memory [sample_entry, closing_entry]) ! 1)
       = ''''"
  using appended_entries_invariant [of 1 "[sample_entry, closing_entry]" python_library fresh_memory]
  by (simp add: append_all_Cons append_sample_entry fresh_memory_simps del: append_all.simps(2))

text \<open>
  The hash stored in the sample entry is not the digest of the stored entry with its
  signature cleared.
\<close>

theorem stored_hash_counterexample:
  "hash (snd (append python_library fresh_memory sample_entry)) \<noteq>
     lib_sha256_hex python_library (lib_canonical_json python_library
       (PDict (to_dict ((snd (append python_library fresh_memory sample_entry))
                          \<lparr> signature := '''' \<rparr>))))"
  by (simp add: append_sample_entry sample_entry_signature sample_line_json python_library_simps
        sha256_sample_line del: canonical_json.simps)
     (simp add: sample_hash_def)










end
